theory Spec2Isabelle
  imports Main
begin

section \<open>JavaScript primitives used by the model\<close>

text \<open>
  The numbers of the program are indices, counts and capacities; they are modelled as
  \<open>int\<close>, the integers among JavaScript's numbers.
  Reading \<open>xs[i]\<close> outside the array yields \<open>undefined\<close> in JavaScript; here it is
  \<open>None\<close>. Objects are always truthy, so \<open>if (xs[i])\<close> on an array of objects is the
  test \<open>js_index xs i \<noteq> None\<close>.
\<close>

definition js_index :: "'a list \<Rightarrow> int \<Rightarrow> 'a option" where
  "js_index xs i = (if 0 \<le> i \<and> i < int (length xs) then Some (xs ! nat i) else None)"

text \<open>\<open>Array.prototype.indexOf\<close>: the first position holding the value, or \<open>-1\<close>.\<close>

fun indexOf_from :: "'a list \<Rightarrow> 'a \<Rightarrow> int \<Rightarrow> int" where
  "indexOf_from [] x i = - 1"
| "indexOf_from (y # ys) x i = (if y = x then i else indexOf_from ys x (i + 1))"

definition indexOf :: "'a list \<Rightarrow> 'a \<Rightarrow> int" where
  "indexOf xs x = indexOf_from xs x 0"

text \<open>The remainder operator \<open>%\<close> on integers: the result takes the sign of the dividend.\<close>

definition js_rem :: "int \<Rightarrow> int \<Rightarrow> int" where
  "js_rem a b = sgn a * (\<bar>a\<bar> mod \<bar>b\<bar>)"

section \<open>TileState (models/TileState.js and the constants of renderer.js)\<close>

definition TileState_A :: string where
  "TileState_A = ''A''"

definition TileState_PRACA :: string where
  "TileState_PRACA = ''Praca''"

definition TileState_U :: string where
  "TileState_U = ''U''"

definition TILE_STATE_ORDER :: "string list" where
  "TILE_STATE_ORDER = [TileState_A, TileState_PRACA, TileState_U]"

text \<open>
  \<open>getNextTileState\<close> reads \<open>TILE_STATE_ORDER[nextIndex]\<close>; lemma \<open>nextIndex_in_range\<close>
  below shows that this read is inside the array for every input.
\<close>

definition getNextTileState :: "string \<Rightarrow> string" where
  "getNextTileState currentState =
     (let currentIndex = indexOf TILE_STATE_ORDER currentState;
          nextIndex = js_rem (currentIndex + 1) (int (length TILE_STATE_ORDER))
      in TILE_STATE_ORDER ! nat nextIndex)"

text \<open>The index that \<open>getNextTileState\<close> and \<open>toggleTileState\<close> both compute.\<close>

definition nextIndex :: "string \<Rightarrow> int" where
  "nextIndex currentState =
     js_rem (indexOf TILE_STATE_ORDER currentState + 1) (int (length TILE_STATE_ORDER))"

section \<open>The board state of BoardStateManager (renderer.js)\<close>

text \<open>
  The state is a tree of plain objects: it is deep-copied through JSON whenever it
  enters or leaves the manager, so no two rows or tiles are shared and the objects are
  modelled as values. The later renderer adds \<open>year\<close> and \<open>weekNumber\<close> to the state;
  the operations below are written on the extensible record and leave any such extra
  fields alone.
\<close>

record tile =
  rowIndex :: int
  columnIndex :: int
  state :: string

record row =
  row_index :: int
  header :: string
  includedInCalculations :: bool
  tiles :: "tile list"

record column =
  col_index :: int
  requiredWorkers :: int

record board_state =
  columns :: "column list"
  rows :: "row list"

record week_board_state = board_state +
  year :: int
  weekNumber :: int

definition toggleTileState ::
  "'z board_state_scheme \<Rightarrow> int \<Rightarrow> int \<Rightarrow> 'z board_state_scheme \<times> string option" where
  "toggleTileState s rowIdx columnIdx =
     (case js_index (rows s) rowIdx of
        None \<Rightarrow> (s, None)
      | Some r \<Rightarrow>
          (case js_index (tiles r) columnIdx of
             None \<Rightarrow> (s, None)
           | Some t \<Rightarrow>
               (let currentState = state t;
                    currentIdx = indexOf TILE_STATE_ORDER currentState;
                    nextIdx = js_rem (currentIdx + 1) (int (length TILE_STATE_ORDER));
                    t' = t\<lparr>state := TILE_STATE_ORDER ! nat nextIdx\<rparr>;
                    r' = r\<lparr>tiles := (tiles r)[nat columnIdx := t']\<rparr>
                in (s\<lparr>rows := (rows s)[nat rowIdx := r']\<rparr>, Some (state t')))))"

text \<open>The state of the tile at a position, when there is one.\<close>

definition tile_state_at :: "'z board_state_scheme \<Rightarrow> int \<Rightarrow> int \<Rightarrow> string option" where
  "tile_state_at s rowIdx columnIdx =
     (case js_index (rows s) rowIdx of
        None \<Rightarrow> None
      | Some r \<Rightarrow> map_option state (js_index (tiles r) columnIdx))"

text \<open>
  Proof device: the board with the state of the tile at row \<open>i\<close>, column \<open>j\<close> replaced.
\<close>

definition set_tile_state ::
  "'z board_state_scheme \<Rightarrow> nat \<Rightarrow> nat \<Rightarrow> string \<Rightarrow> 'z board_state_scheme" where
  "set_tile_state s i j v =
     s\<lparr>rows := (rows s)[i := (rows s ! i)
        \<lparr>tiles := (tiles (rows s ! i))[j := (tiles (rows s ! i) ! j)\<lparr>state := v\<rparr>]\<rparr>]\<rparr>"

text \<open>
  The day names of renderer.js and of class Column, as UTF-8 bytes. The later renderer
  carries German names; only the number of days enters the operations below.
\<close>

definition DAYS_OF_WEEK :: "string list" where
  "DAYS_OF_WEEK =
     [''Poniedzia'' @ [CHR 0xC5, CHR 0x82] @ ''ek'',
      ''Wtorek'',
      [CHR 0xC5, CHR 0x9A] @ ''roda'',
      ''Czwartek'',
      ''Pi'' @ [CHR 0xC4, CHR 0x85] @ ''tek'',
      ''Sobota'',
      ''Niedziela'']"

definition createEmptyState :: board_state where
  "createEmptyState =
     \<lparr>columns = map (\<lambda>index. \<lparr>col_index = int index, requiredWorkers = 1\<rparr>)
                    [0..<length DAYS_OF_WEEK],
      rows = []\<rparr>"

text \<open>\<open>addRow\<close> returns the new row as well; its default header is the empty string.\<close>

definition addRow :: "'z board_state_scheme \<Rightarrow> string \<Rightarrow> 'z board_state_scheme \<times> row" where
  "addRow s hdr =
     (let newRow =
        \<lparr>row_index = int (length (rows s)),
         header = hdr,
         includedInCalculations = True,
         tiles = map (\<lambda>colIndex. \<lparr>rowIndex = int (length (rows s)),
                                   columnIndex = int colIndex,
                                   state = TileState_A\<rparr>)
                     [0..<length DAYS_OF_WEEK]\<rparr>
      in (s\<lparr>rows := rows s @ [newRow]\<rparr>, newRow))"

text \<open>\<open>xs.splice(i, 1)\<close> for an index inside the array.\<close>

definition splice1 :: "'a list \<Rightarrow> nat \<Rightarrow> 'a list" where
  "splice1 xs i = take i xs @ drop (Suc i) xs"

definition reindexRows :: "'z board_state_scheme \<Rightarrow> 'z board_state_scheme" where
  "reindexRows s =
     s\<lparr>rows := map (\<lambda>(index, r).
                  r\<lparr>row_index := int index,
                    tiles := map (\<lambda>t. t\<lparr>rowIndex := int index\<rparr>) (tiles r)\<rparr>)
                (enumerate 0 (rows s))\<rparr>"

definition removeRow :: "'z board_state_scheme \<Rightarrow> int \<Rightarrow> 'z board_state_scheme \<times> bool" where
  "removeRow s rowIdx =
     (if rowIdx \<ge> 0 \<and> rowIdx < int (length (rows s))
      then (reindexRows (s\<lparr>rows := splice1 (rows s) (nat rowIdx)\<rparr>), True)
      else (s, False))"

definition setRowHeader :: "'z board_state_scheme \<Rightarrow> int \<Rightarrow> string \<Rightarrow> 'z board_state_scheme" where
  "setRowHeader s rowIdx hdr =
     (case js_index (rows s) rowIdx of
        None \<Rightarrow> s
      | Some r \<Rightarrow> s\<lparr>rows := (rows s)[nat rowIdx := r\<lparr>header := hdr\<rparr>]\<rparr>)"

definition setRowIncluded :: "'z board_state_scheme \<Rightarrow> int \<Rightarrow> bool \<Rightarrow> 'z board_state_scheme" where
  "setRowIncluded s rowIdx included =
     (case js_index (rows s) rowIdx of
        None \<Rightarrow> s
      | Some r \<Rightarrow> s\<lparr>rows := (rows s)[nat rowIdx := r\<lparr>includedInCalculations := included\<rparr>]\<rparr>)"

text \<open>
  \<open>_swapRows\<close> is private and called with both indices inside the array only (the
  guards of \<open>moveRowUp\<close> and \<open>moveRowDown\<close>).
\<close>

definition swapRows :: "'z board_state_scheme \<Rightarrow> int \<Rightarrow> int \<Rightarrow> 'z board_state_scheme" where
  "swapRows s indexA indexB =
     (let temp = rows s ! nat indexA;
          rows1 = (rows s)[nat indexA := rows s ! nat indexB];
          rows2 = rows1[nat indexB := temp]
      in reindexRows (s\<lparr>rows := rows2\<rparr>))"

definition moveRowUp :: "'z board_state_scheme \<Rightarrow> int \<Rightarrow> 'z board_state_scheme \<times> bool" where
  "moveRowUp s rowIdx =
     (if rowIdx > 0 \<and> rowIdx < int (length (rows s))
      then (swapRows s rowIdx (rowIdx - 1), True)
      else (s, False))"

definition moveRowDown :: "'z board_state_scheme \<Rightarrow> int \<Rightarrow> 'z board_state_scheme \<times> bool" where
  "moveRowDown s rowIdx =
     (if rowIdx \<ge> 0 \<and> rowIdx < int (length (rows s)) - 1
      then (swapRows s rowIdx (rowIdx + 1), True)
      else (s, False))"

text \<open>\<open>setColumnRequiredWorkers\<close> returns nothing, whether it wrote or not.\<close>

definition setColumnRequiredWorkers ::
  "'z board_state_scheme \<Rightarrow> int \<Rightarrow> int \<Rightarrow> 'z board_state_scheme" where
  "setColumnRequiredWorkers s columnIdx count =
     (case js_index (columns s) columnIdx of
        None \<Rightarrow> s
      | Some col \<Rightarrow>
          if count > 0
          then s\<lparr>columns := (columns s)[nat columnIdx := col\<lparr>requiredWorkers := count\<rparr>]\<rparr>
          else s)"

definition countPracaInColumn :: "'z board_state_scheme \<Rightarrow> int \<Rightarrow> int" where
  "countPracaInColumn s columnIdx =
     foldl (\<lambda>count r.
              count + (case js_index (tiles r) columnIdx of
                         None \<Rightarrow> 0
                       | Some t \<Rightarrow> if state t = TileState_PRACA then 1 else 0))
           0
           (filter includedInCalculations (rows s))"

definition isColumnValid :: "'z board_state_scheme \<Rightarrow> int \<Rightarrow> bool" where
  "isColumnValid s columnIdx =
     (case js_index (columns s) columnIdx of
        None \<Rightarrow> False
      | Some col \<Rightarrow>
          (let pracaCount = countPracaInColumn s columnIdx;
               required = requiredWorkers col;
               isSunday = (columnIdx = 6)
           in if isSunday
              then pracaCount = required
              else pracaCount = required \<or> pracaCount = required + 1))"

text \<open>
  The requests that the controller routes to the board manager, and the state after a
  sequence of them.
\<close>

datatype board_call =
  AddRow string
  | RemoveRow int
  | SetRowHeader int string
  | SetRowIncluded int bool
  | ToggleTile int int
  | SetColumnRequired int int
  | MoveRowUp int
  | MoveRowDown int

fun apply_board_call :: "'z board_state_scheme \<Rightarrow> board_call \<Rightarrow> 'z board_state_scheme" where
  "apply_board_call s (AddRow hdr) = fst (addRow s hdr)"
| "apply_board_call s (RemoveRow p) = fst (removeRow s p)"
| "apply_board_call s (SetRowHeader p hdr) = setRowHeader s p hdr"
| "apply_board_call s (SetRowIncluded p inc) = setRowIncluded s p inc"
| "apply_board_call s (ToggleTile p c) = fst (toggleTileState s p c)"
| "apply_board_call s (SetColumnRequired c n) = setColumnRequiredWorkers s c n"
| "apply_board_call s (MoveRowUp p) = fst (moveRowUp s p)"
| "apply_board_call s (MoveRowDown p) = fst (moveRowDown s p)"

definition board_run :: "'z board_state_scheme \<Rightarrow> board_call list \<Rightarrow> 'z board_state_scheme" where
  "board_run s calls = foldl apply_board_call s calls"

section \<open>The model classes (models/Tile.js, Row.js, Column.js, Board.js)\<close>

text \<open>
  Instances of the classes are records of their fields. A constructor parameter that has
  a default value is an \<open>option\<close>: \<open>None\<close> is an omitted (\<open>undefined\<close>) argument. The
  plain objects that \<open>toJSON\<close> returns have the shape of the renderer's state, so the
  records \<open>tile\<close>, \<open>row\<close>, \<open>column\<close> and \<open>board_state\<close> above serve for them.
\<close>

record Tile =
  Tile_rowIndex :: int
  Tile_columnIndex :: int
  Tile_state :: string

record Row =
  Row_index :: int
  Row_header :: string
  Row_includedInCalculations :: bool
  Row_tiles :: "Tile list"

record Column =
  Column_index :: int
  Column_name :: "string option"
  Column_requiredWorkers :: int

record Board =
  Board_columns :: "Column list"
  Board_rows :: "Row list"

definition Tile_new :: "int \<Rightarrow> int \<Rightarrow> string option \<Rightarrow> Tile" where
  "Tile_new rowIdx columnIdx st =
     \<lparr>Tile_rowIndex = rowIdx,
      Tile_columnIndex = columnIdx,
      Tile_state = (case st of None \<Rightarrow> TileState_A | Some v \<Rightarrow> v)\<rparr>"

definition Tile_toggleState :: "Tile \<Rightarrow> Tile \<times> string" where
  "Tile_toggleState t =
     (let t' = t\<lparr>Tile_state := getNextTileState (Tile_state t)\<rparr> in (t', Tile_state t'))"

definition Tile_setState :: "Tile \<Rightarrow> string \<Rightarrow> Tile" where
  "Tile_setState t newState =
     (if newState \<in> set [TileState_A, TileState_PRACA, TileState_U]
      then t\<lparr>Tile_state := newState\<rparr> else t)"

definition Tile_isPraca :: "Tile \<Rightarrow> bool" where
  "Tile_isPraca t = (Tile_state t = TileState_PRACA)"

definition Tile_toJSON :: "Tile \<Rightarrow> tile" where
  "Tile_toJSON t =
     \<lparr>rowIndex = Tile_rowIndex t, columnIndex = Tile_columnIndex t, state = Tile_state t\<rparr>"

definition Tile_fromJSON :: "tile \<Rightarrow> Tile" where
  "Tile_fromJSON data = Tile_new (rowIndex data) (columnIndex data) (Some (state data))"

definition Row_createDefaultTiles :: "int \<Rightarrow> Tile list" where
  "Row_createDefaultTiles idx =
     map (\<lambda>colIndex. Tile_new idx (int colIndex) (Some TileState_A)) [0..<7]"

definition Row_new :: "int \<Rightarrow> string option \<Rightarrow> bool option \<Rightarrow> Tile list option \<Rightarrow> Row" where
  "Row_new idx hdr included ts =
     \<lparr>Row_index = idx,
      Row_header = (case hdr of None \<Rightarrow> [] | Some h \<Rightarrow> h),
      Row_includedInCalculations = (case included of None \<Rightarrow> True | Some b \<Rightarrow> b),
      Row_tiles = (case ts of None \<Rightarrow> Row_createDefaultTiles idx | Some l \<Rightarrow> l)\<rparr>"

definition Row_getTile :: "Row \<Rightarrow> int \<Rightarrow> Tile option" where
  "Row_getTile r dayIndex = js_index (Row_tiles r) dayIndex"

definition Row_updateIndex :: "Row \<Rightarrow> int \<Rightarrow> Row" where
  "Row_updateIndex r newIndex =
     r\<lparr>Row_index := newIndex,
       Row_tiles := map (\<lambda>t. t\<lparr>Tile_rowIndex := newIndex\<rparr>) (Row_tiles r)\<rparr>"

definition Row_toJSON :: "Row \<Rightarrow> row" where
  "Row_toJSON r =
     \<lparr>row_index = Row_index r,
      header = Row_header r,
      includedInCalculations = Row_includedInCalculations r,
      tiles = map Tile_toJSON (Row_tiles r)\<rparr>"

definition Row_fromJSON :: "row \<Rightarrow> Row" where
  "Row_fromJSON data =
     (let ts = map Tile_fromJSON (tiles data)
      in Row_new (row_index data) (Some (header data)) (Some (includedInCalculations data))
           (Some ts))"

definition Column_new :: "int \<Rightarrow> int option \<Rightarrow> Column" where
  "Column_new idx required =
     \<lparr>Column_index = idx,
      Column_name = js_index DAYS_OF_WEEK idx,
      Column_requiredWorkers = (case required of None \<Rightarrow> 1 | Some n \<Rightarrow> n)\<rparr>"

definition Column_isSunday :: "Column \<Rightarrow> bool" where
  "Column_isSunday c = (Column_index c = 6)"

definition Column_setRequiredWorkers :: "Column \<Rightarrow> int \<Rightarrow> Column" where
  "Column_setRequiredWorkers c count =
     (if count > 0 then c\<lparr>Column_requiredWorkers := count\<rparr> else c)"

definition Column_toJSON :: "Column \<Rightarrow> column" where
  "Column_toJSON c = \<lparr>col_index = Column_index c, requiredWorkers = Column_requiredWorkers c\<rparr>"

definition Column_fromJSON :: "column \<Rightarrow> Column" where
  "Column_fromJSON data = Column_new (col_index data) (Some (requiredWorkers data))"

definition Board_createDefaultColumns :: "Column list" where
  "Board_createDefaultColumns = map (\<lambda>index. Column_new (int index) (Some 1)) [0..<7]"

definition Board_new :: "Column list option \<Rightarrow> Row list option \<Rightarrow> Board" where
  "Board_new cols rws =
     \<lparr>Board_columns = (case cols of None \<Rightarrow> Board_createDefaultColumns | Some c \<Rightarrow> c),
      Board_rows = (case rws of None \<Rightarrow> [] | Some r \<Rightarrow> r)\<rparr>"

definition Board_addRow :: "Board \<Rightarrow> string \<Rightarrow> Board \<times> Row" where
  "Board_addRow b hdr =
     (let newRow = Row_new (int (length (Board_rows b))) (Some hdr) (Some True) None
      in (b\<lparr>Board_rows := Board_rows b @ [newRow]\<rparr>, newRow))"

definition Board_removeRow :: "Board \<Rightarrow> int \<Rightarrow> Board \<times> bool" where
  "Board_removeRow b rowIdx =
     (if rowIdx \<ge> 0 \<and> rowIdx < int (length (Board_rows b))
      then (b\<lparr>Board_rows := map (\<lambda>(index, r). Row_updateIndex r (int index))
                               (enumerate 0 (splice1 (Board_rows b) (nat rowIdx)))\<rparr>, True)
      else (b, False))"

definition Board_getRow :: "Board \<Rightarrow> int \<Rightarrow> Row option" where
  "Board_getRow b rowIdx = js_index (Board_rows b) rowIdx"

definition Board_getColumn :: "Board \<Rightarrow> int \<Rightarrow> Column option" where
  "Board_getColumn b columnIdx = js_index (Board_columns b) columnIdx"

definition Board_getTile :: "Board \<Rightarrow> int \<Rightarrow> int \<Rightarrow> Tile option" where
  "Board_getTile b rowIdx columnIdx =
     (case Board_getRow b rowIdx of None \<Rightarrow> None | Some r \<Rightarrow> Row_getTile r columnIdx)"

definition Board_countPracaInColumn :: "Board \<Rightarrow> int \<Rightarrow> int" where
  "Board_countPracaInColumn b columnIdx =
     foldl (\<lambda>count r.
              count + (case Row_getTile r columnIdx of
                         None \<Rightarrow> 0
                       | Some t \<Rightarrow> if Tile_isPraca t then 1 else 0))
           0
           (filter Row_includedInCalculations (Board_rows b))"

definition Board_isColumnValid :: "Board \<Rightarrow> int \<Rightarrow> bool" where
  "Board_isColumnValid b columnIdx =
     (case Board_getColumn b columnIdx of
        None \<Rightarrow> False
      | Some col \<Rightarrow>
          (let pracaCount = Board_countPracaInColumn b columnIdx;
               required = Column_requiredWorkers col
           in if Column_isSunday col
              then pracaCount = required
              else pracaCount = required \<or> pracaCount = required + 1))"

definition Board_toJSON :: "Board \<Rightarrow> board_state" where
  "Board_toJSON b =
     \<lparr>columns = map Column_toJSON (Board_columns b), rows = map Row_toJSON (Board_rows b)\<rparr>"

definition Board_fromJSON :: "'z board_state_scheme \<Rightarrow> Board" where
  "Board_fromJSON data =
     (let cols = map Column_fromJSON (columns data);
          rws = map Row_fromJSON (rows data)
      in Board_new (Some cols) (Some rws))"

section \<open>HistoryManager (services/HistoryManager.js and renderer.js)\<close>

text \<open>
  The stacks hold the texts that \<open>JSON.stringify\<close> returns. The two JSON functions are
  parameters of the operations: \<open>stringify\<close> for \<open>JSON.stringify\<close> and \<open>parse\<close> for
  \<open>JSON.parse\<close>. Snapshots are the plain values that \<open>getState\<close> returns, on which
  both are total. \<open>null\<close> as a result is \<open>None\<close>.
\<close>

record 's HistoryManager =
  undoStack :: "'s list"
  redoStack :: "'s list"
  maxHistorySize :: int

definition HistoryManager_new :: "int option \<Rightarrow> 's HistoryManager" where
  "HistoryManager_new maxSize =
     \<lparr>undoStack = [], redoStack = [],
      maxHistorySize = (case maxSize of None \<Rightarrow> 100 | Some n \<Rightarrow> n)\<rparr>"

definition pushState :: "('a \<Rightarrow> 's) \<Rightarrow> 's HistoryManager \<Rightarrow> 'a \<Rightarrow> 's HistoryManager" where
  "pushState stringify h stateSnapshot =
     (let undo1 = undoStack h @ [stringify stateSnapshot];
          undo2 = (if int (length undo1) > maxHistorySize h then tl undo1 else undo1)
      in h\<lparr>undoStack := undo2, redoStack := []\<rparr>)"

definition undo ::
  "('a \<Rightarrow> 's) \<Rightarrow> ('s \<Rightarrow> 'a) \<Rightarrow> 's HistoryManager \<Rightarrow> 'a \<Rightarrow> 's HistoryManager \<times> 'a option" where
  "undo stringify parse h currentState =
     (if length (undoStack h) = 0 then (h, None)
      else (h\<lparr>redoStack := redoStack h @ [stringify currentState],
              undoStack := butlast (undoStack h)\<rparr>,
            Some (parse (last (undoStack h)))))"

definition redo ::
  "('a \<Rightarrow> 's) \<Rightarrow> ('s \<Rightarrow> 'a) \<Rightarrow> 's HistoryManager \<Rightarrow> 'a \<Rightarrow> 's HistoryManager \<times> 'a option" where
  "redo stringify parse h currentState =
     (if length (redoStack h) = 0 then (h, None)
      else (h\<lparr>undoStack := undoStack h @ [stringify currentState],
              redoStack := butlast (redoStack h)\<rparr>,
            Some (parse (last (redoStack h)))))"

definition canUndo :: "'s HistoryManager \<Rightarrow> bool" where
  "canUndo h = (length (undoStack h) > 0)"

definition canRedo :: "'s HistoryManager \<Rightarrow> bool" where
  "canRedo h = (length (redoStack h) > 0)"

text \<open>Sequences of calls: a run of checkpoints, a run of undos, and any mix of calls.\<close>

definition pushStates :: "('a \<Rightarrow> 's) \<Rightarrow> 's HistoryManager \<Rightarrow> 'a list \<Rightarrow> 's HistoryManager" where
  "pushStates stringify h snapshots = foldl (pushState stringify) h snapshots"

fun undos ::
  "('a \<Rightarrow> 's) \<Rightarrow> ('s \<Rightarrow> 'a) \<Rightarrow> 's HistoryManager \<Rightarrow> 'a list \<Rightarrow> 'a option list" where
  "undos stringify parse h [] = []"
| "undos stringify parse h (c # cs) =
     snd (undo stringify parse h c) # undos stringify parse (fst (undo stringify parse h c)) cs"

datatype 'a history_call = PushState 'a | Undo 'a | Redo 'a

fun apply_call ::
  "('a \<Rightarrow> 's) \<Rightarrow> ('s \<Rightarrow> 'a) \<Rightarrow> 's HistoryManager \<Rightarrow> 'a history_call \<Rightarrow> 's HistoryManager" where
  "apply_call stringify parse h (PushState x) = pushState stringify h x"
| "apply_call stringify parse h (Undo x) = fst (undo stringify parse h x)"
| "apply_call stringify parse h (Redo x) = fst (redo stringify parse h x)"

definition history_run ::
  "('a \<Rightarrow> 's) \<Rightarrow> ('s \<Rightarrow> 'a) \<Rightarrow> 's HistoryManager \<Rightarrow> 'a history_call list \<Rightarrow> 's HistoryManager" where
  "history_run stringify parse h calls = foldl (apply_call stringify parse) h calls"

section \<open>Properties in the words of the specification\<close>

text \<open>
  The work count in the words of the specification: the number of rows whose inclusion
  flag is true and whose tile at the column has state Work.
\<close>

definition works_at :: "row \<Rightarrow> int \<Rightarrow> bool" where
  "works_at r c = (case js_index (tiles r) c of None \<Rightarrow> False | Some t \<Rightarrow> state t = TileState_PRACA)"

definition workCount :: "'z board_state_scheme \<Rightarrow> int \<Rightarrow> int" where
  "workCount s c = int (length (filter (\<lambda>r. includedInCalculations r \<and> works_at r c) (rows s)))"

definition Row_works_at :: "Row \<Rightarrow> int \<Rightarrow> bool" where
  "Row_works_at r c =
     (case js_index (Row_tiles r) c of None \<Rightarrow> False | Some t \<Rightarrow> Tile_state t = TileState_PRACA)"

definition Board_workCount :: "Board \<Rightarrow> int \<Rightarrow> int" where
  "Board_workCount b c =
     int (length (filter (\<lambda>r. Row_includedInCalculations r \<and> Row_works_at r c) (Board_rows b)))"

text \<open>
  What a row carries apart from its position: header, inclusion flag, and the column
  position and state of each tile.
\<close>

definition row_content :: "row \<Rightarrow> string \<times> bool \<times> (int \<times> string) list" where
  "row_content r =
     (header r, includedInCalculations r, map (\<lambda>t. (columnIndex t, state t)) (tiles r))"

text \<open>
  Dense indexing: the rows carry the positions \<open>0..N-1\<close> in order and every tile's
  \<open>rowIndex\<close> is the index of the row that owns it. A week of tiles: exactly 7 tiles
  with the column positions \<open>0..6\<close> in order.
\<close>

definition rows_dense :: "row list \<Rightarrow> bool" where
  "rows_dense rs =
     (map row_index rs = map int [0..<length rs]
      \<and> list_all (\<lambda>r. list_all (\<lambda>t. rowIndex t = row_index r) (tiles r)) rs)"

definition week_tiles :: "row \<Rightarrow> bool" where
  "week_tiles r = (map columnIndex (tiles r) = map int [0..<7])"

definition Rows_dense :: "Row list \<Rightarrow> bool" where
  "Rows_dense rs =
     (map Row_index rs = map int [0..<length rs]
      \<and> list_all (\<lambda>r. list_all (\<lambda>t. Tile_rowIndex t = Row_index r) (Row_tiles r)) rs)"

definition Week_Tiles :: "Row \<Rightarrow> bool" where
  "Week_Tiles r = (map Tile_columnIndex (Row_tiles r) = map int [0..<7])"

text \<open>
  The \<open>name\<close> of a Column is derived: the constructor, the only place that writes it,
  sets it to the day name at the column's index (\<open>undefined\<close>, here \<open>None\<close>, outside
  \<open>0..6\<close>), and \<open>toJSON\<close> leaves it out.
\<close>

definition Column_named :: "Column \<Rightarrow> bool" where
  "Column_named c = (Column_name c = js_index DAYS_OF_WEEK (Column_index c))"

section \<open>Example inputs\<close>

text \<open>A state as corrupted persisted data could give it: one tile in the unknown state \<open>X\<close>.\<close>

definition corrupted_state :: board_state where
  "corrupted_state =
     \<lparr>columns = [],
      rows = [\<lparr>row_index = 0, header = ''Anna'', includedInCalculations = True,
               tiles = [\<lparr>rowIndex = 0, columnIndex = 0, state = ''X''\<rparr>]\<rparr>]\<rparr>"

text \<open>
  Boards of \<open>n\<close> rows that work every day, with the same required count on every day;
  a row may be excluded from the calculations.
\<close>

definition work_row :: "int \<Rightarrow> bool \<Rightarrow> row" where
  "work_row i included =
     \<lparr>row_index = i, header = [], includedInCalculations = included,
      tiles = map (\<lambda>c. \<lparr>rowIndex = i, columnIndex = int c, state = TileState_PRACA\<rparr>) [0..<7]\<rparr>"

definition work_board :: "nat \<Rightarrow> int \<Rightarrow> board_state" where
  "work_board n required =
     \<lparr>columns = map (\<lambda>i. \<lparr>col_index = int i, requiredWorkers = required\<rparr>) [0..<7],
      rows = map (\<lambda>i. work_row (int i) True) [0..<n]\<rparr>"

definition excluded_row_board :: board_state where
  "excluded_row_board =
     \<lparr>columns = columns createEmptyState, rows = [work_row 0 True, work_row 1 False]\<rparr>"

definition Work_Row :: "int \<Rightarrow> bool \<Rightarrow> Row" where
  "Work_Row i included =
     Row_new i (Some []) (Some included)
       (Some (map (\<lambda>c. Tile_new i (int c) (Some TileState_PRACA)) [0..<7]))"

definition Work_Board :: "nat \<Rightarrow> int \<Rightarrow> Board" where
  "Work_Board n required =
     Board_new (Some (map (\<lambda>i. Column_new (int i) (Some required)) [0..<7]))
       (Some (map (\<lambda>i. Work_Row (int i) True) [0..<n]))"

definition Excluded_Row_Board :: Board where
  "Excluded_Row_Board = Board_new None (Some [Work_Row 0 True, Work_Row 1 False])"

text \<open>Three rows added to the empty board, in the renderer's state and in class Board.\<close>

definition three_row_board :: board_state where
  "three_row_board =
     fst (addRow (fst (addRow (fst (addRow createEmptyState ''Anna'')) ''Bob'')) ''Cleo'')"

definition Three_Row_Board :: Board where
  "Three_Row_Board =
     fst (Board_addRow (fst (Board_addRow (fst (Board_addRow (Board_new None None) ''Anna''))
       ''Bob'')) ''Cleo'')"

text \<open>A board with mixed inclusion flags and mixed tile states.\<close>

definition Mixed_Board :: Board where
  "Mixed_Board =
     Board_new None
       (Some [Work_Row 0 True, Work_Row 1 False, Row_new 2 (Some ''Cleo'') (Some True) None])"

section \<open>Tile-state cycling\<close>

lemma indexOf_known:
  "indexOf TILE_STATE_ORDER TileState_A = 0"
  "indexOf TILE_STATE_ORDER TileState_PRACA = 1"
  "indexOf TILE_STATE_ORDER TileState_U = 2"
  by (simp_all add: indexOf_def TILE_STATE_ORDER_def TileState_A_def TileState_PRACA_def
      TileState_U_def)

lemma indexOf_unknown:
  "s \<notin> set TILE_STATE_ORDER \<Longrightarrow> indexOf TILE_STATE_ORDER s = - 1"
  by (auto simp add: indexOf_def TILE_STATE_ORDER_def)

lemma indexOf_cases:
  "indexOf TILE_STATE_ORDER s \<in> {- 1, 0, 1, 2}"
  by (simp add: indexOf_def TILE_STATE_ORDER_def)

lemma nextIndex_in_range:
  "0 \<le> nextIndex s \<and> nextIndex s < int (length TILE_STATE_ORDER)"
proof -
  have "indexOf TILE_STATE_ORDER s \<in> {- 1, 0, 1, 2}" by (rule indexOf_cases)
  moreover have "length TILE_STATE_ORDER = 3" by (simp add: TILE_STATE_ORDER_def)
  ultimately show ?thesis
    by (auto simp add: nextIndex_def js_rem_def Let_def)
qed

lemma length_TILE_STATE_ORDER: "length TILE_STATE_ORDER = 3"
  by (simp add: TILE_STATE_ORDER_def)

lemma getNextTileState_nextIndex:
  "getNextTileState currentState = TILE_STATE_ORDER ! nat (nextIndex currentState)"
  by (simp add: getNextTileState_def nextIndex_def Let_def)

lemma nextIndex_known:
  "nextIndex TileState_A = 1"
  "nextIndex TileState_PRACA = 2"
  "nextIndex TileState_U = 0"
  by (simp_all add: nextIndex_def indexOf_known js_rem_def length_TILE_STATE_ORDER)

lemma nextIndex_unknown:
  "s \<notin> set TILE_STATE_ORDER \<Longrightarrow> nextIndex s = 0"
  by (simp add: nextIndex_def indexOf_unknown js_rem_def)

lemma getNextTileState_known:
  "getNextTileState TileState_A = TileState_PRACA"
  "getNextTileState TileState_PRACA = TileState_U"
  "getNextTileState TileState_U = TileState_A"
  by (simp_all add: getNextTileState_nextIndex nextIndex_known TILE_STATE_ORDER_def)

lemma getNextTileState_unknown:
  "s \<notin> set TILE_STATE_ORDER \<Longrightarrow> getNextTileState s = TileState_A"
  by (simp add: getNextTileState_nextIndex nextIndex_unknown) (simp add: TILE_STATE_ORDER_def)

lemma tile_state_at_Some:
  "tile_state_at s r c = Some st \<longleftrightarrow>
     (\<exists>i j. r = int i \<and> c = int j \<and> i < length (rows s) \<and> j < length (tiles (rows s ! i))
        \<and> state (tiles (rows s ! i) ! j) = st)"
proof
  assume "tile_state_at s r c = Some st"
  then have "0 \<le> r \<and> r < int (length (rows s)) \<and> 0 \<le> c
      \<and> c < int (length (tiles (rows s ! nat r))) \<and> state (tiles (rows s ! nat r) ! nat c) = st"
    by (auto simp add: tile_state_at_def js_index_def split: option.splits if_splits)
  then have "r = int (nat r) \<and> c = int (nat c) \<and> nat r < length (rows s)
      \<and> nat c < length (tiles (rows s ! nat r)) \<and> state (tiles (rows s ! nat r) ! nat c) = st"
    by auto
  then show "\<exists>i j. r = int i \<and> c = int j \<and> i < length (rows s) \<and> j < length (tiles (rows s ! i))
        \<and> state (tiles (rows s ! i) ! j) = st"
    by blast
next
  assume "\<exists>i j. r = int i \<and> c = int j \<and> i < length (rows s) \<and> j < length (tiles (rows s ! i))
        \<and> state (tiles (rows s ! i) ! j) = st"
  then show "tile_state_at s r c = Some st"
    by (auto simp add: tile_state_at_def js_index_def)
qed

lemma toggleTileState_valid:
  assumes "tile_state_at s r c = Some st"
  shows "toggleTileState s r c =
           (set_tile_state s (nat r) (nat c) (getNextTileState st), Some (getNextTileState st))"
  using assms
  by (auto simp add: tile_state_at_Some toggleTileState_def js_index_def set_tile_state_def
      getNextTileState_def Let_def)

lemma toggleTileState_invalid:
  "tile_state_at s r c = None \<Longrightarrow> toggleTileState s r c = (s, None)"
  by (auto simp add: tile_state_at_def toggleTileState_def split: option.splits)

lemma tile_state_at_set:
  "tile_state_at s r c = Some st \<Longrightarrow>
     tile_state_at (set_tile_state s (nat r) (nat c) v) r c = Some v"
  by (auto simp add: tile_state_at_Some set_tile_state_def)

lemma set_tile_state_twice:
  "tile_state_at s r c = Some st \<Longrightarrow>
   set_tile_state (set_tile_state s (nat r) (nat c) v) (nat r) (nat c) w = set_tile_state s (nat r) (nat c) w"
  by (auto simp add: tile_state_at_Some set_tile_state_def)

lemma set_tile_state_same:
  "tile_state_at s r c = Some st \<Longrightarrow> set_tile_state s (nat r) (nat c) st = s"
  by (auto simp add: tile_state_at_Some set_tile_state_def)

lemma toggle_thrice:
  assumes "tile_state_at s r c = Some st"
  shows "fst (toggleTileState (fst (toggleTileState (fst (toggleTileState s r c)) r c)) r c)
          = set_tile_state s (nat r) (nat c) (getNextTileState (getNextTileState (getNextTileState st)))"
    and "snd (toggleTileState (fst (toggleTileState (fst (toggleTileState s r c)) r c)) r c)
          = Some (getNextTileState (getNextTileState (getNextTileState st)))"
proof -
  let ?n = getNextTileState
  let ?s1 = "set_tile_state s (nat r) (nat c) (?n st)"
  let ?s2 = "set_tile_state s (nat r) (nat c) (?n (?n st))"
  have t1: "toggleTileState s r c = (?s1, Some (?n st))"
    using assms by (rule toggleTileState_valid)
  have a1: "tile_state_at ?s1 r c = Some (?n st)"
    using assms by (rule tile_state_at_set)
  have t2: "toggleTileState ?s1 r c = (?s2, Some (?n (?n st)))"
    using toggleTileState_valid [OF a1] set_tile_state_twice [OF assms] by simp
  have a2: "tile_state_at ?s2 r c = Some (?n (?n st))"
    using assms by (rule tile_state_at_set)
  have t3: "toggleTileState ?s2 r c
      = (set_tile_state s (nat r) (nat c) (?n (?n (?n st))), Some (?n (?n (?n st))))"
    using toggleTileState_valid [OF a2] set_tile_state_twice [OF assms] by simp
  show "fst (toggleTileState (fst (toggleTileState (fst (toggleTileState s r c)) r c)) r c)
          = set_tile_state s (nat r) (nat c) (?n (?n (?n st)))"
    by (simp add: t1 t2 t3)
  show "snd (toggleTileState (fst (toggleTileState (fst (toggleTileState s r c)) r c)) r c)
          = Some (?n (?n (?n st)))"
    by (simp add: t1 t2 t3)
qed

lemma getNextTileState_thrice:
  "st \<in> set TILE_STATE_ORDER \<Longrightarrow> getNextTileState (getNextTileState (getNextTileState st)) = st"
  by (auto simp add: TILE_STATE_ORDER_def getNextTileState_known)

lemma Tile_toggleState_thrice:
  "Tile_state t \<in> set TILE_STATE_ORDER \<Longrightarrow>
     fst (Tile_toggleState (fst (Tile_toggleState (fst (Tile_toggleState t))))) = t"
  by (simp add: Tile_toggleState_def Let_def getNextTileState_thrice)

text \<open>
  C3: the cycling function advances one position in the order A, Praca, U and wraps
  from the last to the first; so for each of the three known states three toggles, by
  \<open>getNextTileState\<close>, by \<open>toggleTileState\<close> at a position that holds a tile, or by
  \<open>Tile.toggleState\<close>, give back the original state (and the original board).
\<close>

theorem tile_state_cycle:
  "getNextTileState TileState_A = TileState_PRACA
   \<and> getNextTileState TileState_PRACA = TileState_U
   \<and> getNextTileState TileState_U = TileState_A
   \<and> (\<forall>st \<in> set TILE_STATE_ORDER.
         getNextTileState (getNextTileState (getNextTileState st)) = st)
   \<and> (tile_state_at s r c = Some st \<longrightarrow>
         snd (toggleTileState s r c) = Some (getNextTileState st)
         \<and> tile_state_at (fst (toggleTileState s r c)) r c = Some (getNextTileState st))
   \<and> (\<forall>st \<in> set TILE_STATE_ORDER. tile_state_at s r c = Some st \<longrightarrow>
         fst (toggleTileState (fst (toggleTileState (fst (toggleTileState s r c)) r c)) r c) = s
         \<and> snd (toggleTileState (fst (toggleTileState (fst (toggleTileState s r c)) r c)) r c)
             = Some st)
   \<and> (Tile_state t \<in> set TILE_STATE_ORDER \<longrightarrow>
         snd (Tile_toggleState t) = getNextTileState (Tile_state t)
         \<and> fst (Tile_toggleState (fst (Tile_toggleState (fst (Tile_toggleState t))))) = t)"
proof -
  have one: "tile_state_at s r c = Some st \<longrightarrow>
         snd (toggleTileState s r c) = Some (getNextTileState st)
         \<and> tile_state_at (fst (toggleTileState s r c)) r c = Some (getNextTileState st)"
    by (simp add: toggleTileState_valid tile_state_at_set)
  have three: "\<forall>st \<in> set TILE_STATE_ORDER. tile_state_at s r c = Some st \<longrightarrow>
         fst (toggleTileState (fst (toggleTileState (fst (toggleTileState s r c)) r c)) r c) = s
         \<and> snd (toggleTileState (fst (toggleTileState (fst (toggleTileState s r c)) r c)) r c)
             = Some st"
  proof (intro ballI impI)
    fix st' assume k: "st' \<in> set TILE_STATE_ORDER" and v: "tile_state_at s r c = Some st'"
    show "fst (toggleTileState (fst (toggleTileState (fst (toggleTileState s r c)) r c)) r c) = s
         \<and> snd (toggleTileState (fst (toggleTileState (fst (toggleTileState s r c)) r c)) r c)
             = Some st'"
      using toggle_thrice [OF v] getNextTileState_thrice [OF k] set_tile_state_same [OF v]
      by simp
  qed
  have cls: "Tile_state t \<in> set TILE_STATE_ORDER \<longrightarrow>
         snd (Tile_toggleState t) = getNextTileState (Tile_state t)
         \<and> fst (Tile_toggleState (fst (Tile_toggleState (fst (Tile_toggleState t))))) = t"
    using Tile_toggleState_thrice [of t] by (simp add: Tile_toggleState_def Let_def)
  have cyc: "\<forall>st \<in> set TILE_STATE_ORDER.
         getNextTileState (getNextTileState (getNextTileState st)) = st"
    by (simp add: getNextTileState_thrice)
  show ?thesis
    using getNextTileState_known one three cls cyc by blast
qed

lemma upt_7: "[0..<7] = [0, 1, 2, 3, 4, 5, 6]"
  by (simp add: upt_rec)

lemma length_DAYS_OF_WEEK: "length DAYS_OF_WEEK = 7"
  by (simp add: DAYS_OF_WEEK_def)

theorem tile_state_cycle_witness:
  "TileState_A \<in> set TILE_STATE_ORDER
   \<and> tile_state_at (fst (addRow createEmptyState ''Anna'')) 0 0 = Some TileState_A
   \<and> Tile_state (Tile_new 0 0 None) \<in> set TILE_STATE_ORDER
   \<and> fst (toggleTileState (fst (toggleTileState (fst (toggleTileState
          (fst (addRow createEmptyState ''Anna'')) 0 0)) 0 0)) 0 0)
       = fst (addRow createEmptyState ''Anna'')
   \<and> fst (Tile_toggleState (fst (Tile_toggleState (fst (Tile_toggleState (Tile_new 0 0 None))))))
       = Tile_new 0 0 None"
proof -
  have a: "TileState_A \<in> set TILE_STATE_ORDER"
    by (simp add: TILE_STATE_ORDER_def)
  have b: "tile_state_at (fst (addRow createEmptyState ''Anna'')) 0 0 = Some TileState_A"
    by (simp add: addRow_def createEmptyState_def length_DAYS_OF_WEEK upt_7 tile_state_at_def
        js_index_def Let_def)
  have c: "Tile_state (Tile_new 0 0 None) \<in> set TILE_STATE_ORDER"
    by (simp add: Tile_new_def TILE_STATE_ORDER_def)
  show ?thesis
    using a b c
      tile_state_cycle [of "fst (addRow createEmptyState ''Anna'')" 0 0 TileState_A
        "Tile_new 0 0 None"]
    by blast
qed

text \<open>
  C10: a state outside the three known values has index \<open>-1\<close> in the cycling order,
  \<open>(-1 + 1) % 3\<close> is \<open>0\<close>, and the toggle (\<open>getNextTileState\<close>, \<open>toggleTileState\<close> at
  a position that holds such a tile, \<open>Tile.toggleState\<close>) returns and stores \<open>'A'\<close>, the
  first value of the order.
\<close>

theorem unknown_state_toggles_to_A:
  assumes "st \<notin> set TILE_STATE_ORDER"
  shows "indexOf TILE_STATE_ORDER st = - 1
     \<and> js_rem (- 1 + 1) (int (length TILE_STATE_ORDER)) = 0
     \<and> TILE_STATE_ORDER ! 0 = TileState_A
     \<and> getNextTileState st = TileState_A
     \<and> (tile_state_at s r c = Some st \<longrightarrow>
           snd (toggleTileState s r c) = Some TileState_A
           \<and> tile_state_at (fst (toggleTileState s r c)) r c = Some TileState_A)
     \<and> (Tile_state t = st \<longrightarrow>
           snd (Tile_toggleState t) = TileState_A
           \<and> Tile_state (fst (Tile_toggleState t)) = TileState_A)"
proof -
  have n: "getNextTileState st = TileState_A"
    using assms by (rule getNextTileState_unknown)
  have "js_rem (- 1 + 1) (int (length TILE_STATE_ORDER)) = 0"
    by (simp add: js_rem_def)
  moreover have "TILE_STATE_ORDER ! 0 = TileState_A"
    by (simp add: TILE_STATE_ORDER_def)
  moreover have "tile_state_at s r c = Some st \<longrightarrow>
           snd (toggleTileState s r c) = Some TileState_A
           \<and> tile_state_at (fst (toggleTileState s r c)) r c = Some TileState_A"
    by (simp add: toggleTileState_valid tile_state_at_set n)
  moreover have "Tile_state t = st \<longrightarrow>
           snd (Tile_toggleState t) = TileState_A
           \<and> Tile_state (fst (Tile_toggleState t)) = TileState_A"
    by (auto simp add: Tile_toggleState_def Let_def n)
  ultimately show ?thesis
    using indexOf_unknown [OF assms] n by blast
qed

theorem unknown_state_toggles_to_A_witness:
  "''X'' \<notin> set TILE_STATE_ORDER
   \<and> tile_state_at corrupted_state 0 0 = Some ''X''
   \<and> getNextTileState ''X'' = TileState_A
   \<and> snd (toggleTileState corrupted_state 0 0) = Some TileState_A
   \<and> tile_state_at (fst (toggleTileState corrupted_state 0 0)) 0 0 = Some TileState_A"
proof -
  have a: "''X'' \<notin> set TILE_STATE_ORDER"
    by (simp add: TILE_STATE_ORDER_def TileState_A_def TileState_PRACA_def TileState_U_def)
  have b: "tile_state_at corrupted_state 0 0 = Some ''X''"
    by (simp add: corrupted_state_def tile_state_at_def js_index_def)
  show ?thesis
    using a b unknown_state_toggles_to_A [OF a, of corrupted_state 0 0]
    by blast
qed

section \<open>Work count and column validity\<close>

lemma foldl_count:
  "foldl (\<lambda>count r. count + (if P r then 1 else 0)) a xs = a + int (length (filter P xs))"
  by (induction xs arbitrary: a) simp_all

lemma countPracaInColumn_workCount: "countPracaInColumn s c = workCount s c"
proof -
  have "(\<lambda>count r. count + (case js_index (tiles r) c of None \<Rightarrow> 0
            | Some t \<Rightarrow> if state t = TileState_PRACA then 1 else 0))
        = (\<lambda>count r. count + (if works_at r c then 1 else (0::int)))"
    by (auto simp add: works_at_def fun_eq_iff split: option.splits)
  then show ?thesis
    by (simp add: countPracaInColumn_def workCount_def foldl_count)
qed

lemma Board_countPracaInColumn_workCount: "Board_countPracaInColumn b c = Board_workCount b c"
proof -
  have "(\<lambda>count r. count + (case Row_getTile r c of None \<Rightarrow> 0
            | Some t \<Rightarrow> if Tile_isPraca t then 1 else 0))
        = (\<lambda>count r. count + (if Row_works_at r c then 1 else (0::int)))"
    by (auto simp add: Row_works_at_def Row_getTile_def Tile_isPraca_def fun_eq_iff
        split: option.splits)
  then show ?thesis
    by (simp add: Board_countPracaInColumn_def Board_workCount_def foldl_count)
qed

lemma workCount_excluded:
  "\<not> includedInCalculations r \<Longrightarrow>
     workCount (s\<lparr>rows := xs @ r # ys\<rparr>) c = workCount (s\<lparr>rows := xs @ ys\<rparr>) c"
  by (simp add: workCount_def)

lemma Board_workCount_excluded:
  "\<not> Row_includedInCalculations r \<Longrightarrow>
     Board_workCount (b\<lparr>Board_rows := xs @ r # ys\<rparr>) c
       = Board_workCount (b\<lparr>Board_rows := xs @ ys\<rparr>) c"
  by (simp add: Board_workCount_def)

lemma works_at_work_row:
  "works_at (work_row i inc) c \<longleftrightarrow> 0 \<le> c \<and> c < 7"
  by (auto simp add: works_at_def work_row_def js_index_def)

lemma Row_works_at_Work_Row:
  "Row_works_at (Work_Row i inc) c \<longleftrightarrow> 0 \<le> c \<and> c < 7"
  by (auto simp add: Row_works_at_def Work_Row_def Row_new_def Tile_new_def js_index_def)

lemma included_work_row: "includedInCalculations (work_row i inc) = inc"
  by (simp add: work_row_def)

lemma included_Work_Row: "Row_includedInCalculations (Work_Row i inc) = inc"
  by (simp add: Work_Row_def Row_new_def)

lemma workCount_work_board:
  "0 \<le> c \<Longrightarrow> c < 7 \<Longrightarrow> workCount (work_board n required) c = int n"
  by (simp add: workCount_def work_board_def filter_map o_def works_at_work_row included_work_row)

lemma Board_workCount_Work_Board:
  "0 \<le> c \<Longrightarrow> c < 7 \<Longrightarrow> Board_workCount (Work_Board n required) c = int n"
  by (simp add: Board_workCount_def Work_Board_def Board_new_def filter_map o_def
      Row_works_at_Work_Row included_Work_Row)

lemma workCount_excluded_row_board: "workCount excluded_row_board 0 = 1"
  by (simp add: workCount_def excluded_row_board_def works_at_work_row included_work_row)

lemma Board_workCount_Excluded_Row_Board: "Board_workCount Excluded_Row_Board 0 = 1"
  by (simp add: Board_workCount_def Excluded_Row_Board_def Board_new_def Row_works_at_Work_Row
      included_Work_Row)

lemma column_work_board:
  "0 \<le> c \<Longrightarrow> c < 7 \<Longrightarrow>
     js_index (columns (work_board n required)) c = Some \<lparr>col_index = c, requiredWorkers = required\<rparr>"
  by (simp add: js_index_def work_board_def nat_less_iff)

lemma column_Work_Board:
  "0 \<le> c \<Longrightarrow> c < 7 \<Longrightarrow>
     Board_getColumn (Work_Board n required) c = Some (Column_new c (Some required))"
  by (simp add: Board_getColumn_def js_index_def Work_Board_def Board_new_def nat_less_iff)

lemma isColumnValid_iff:
  "js_index (columns s) c = Some col \<Longrightarrow>
     isColumnValid s c \<longleftrightarrow>
       (if c = 6 then workCount s c = requiredWorkers col
        else workCount s c = requiredWorkers col \<or> workCount s c = requiredWorkers col + 1)"
  by (simp add: isColumnValid_def Let_def countPracaInColumn_workCount)

lemma Board_isColumnValid_iff:
  "Board_getColumn b c = Some col \<Longrightarrow>
     Board_isColumnValid b c \<longleftrightarrow>
       (if Column_index col = 6 then Board_workCount b c = Column_requiredWorkers col
        else Board_workCount b c = Column_requiredWorkers col
           \<or> Board_workCount b c = Column_requiredWorkers col + 1)"
  by (simp add: Board_isColumnValid_def Let_def Board_countPracaInColumn_workCount
      Column_isSunday_def)

lemma isColumnValid_work_board:
  "0 \<le> c \<Longrightarrow> c < 7 \<Longrightarrow>
     isColumnValid (work_board n required) c \<longleftrightarrow>
       (if c = 6 then int n = required else int n = required \<or> int n = required + 1)"
  by (simp add: isColumnValid_iff [OF column_work_board] workCount_work_board)

lemma Board_isColumnValid_Work_Board:
  "0 \<le> c \<Longrightarrow> c < 7 \<Longrightarrow>
     Board_isColumnValid (Work_Board n required) c \<longleftrightarrow>
       (if c = 6 then int n = required else int n = required \<or> int n = required + 1)"
  by (simp add: Board_isColumnValid_iff [OF column_Work_Board] Board_workCount_Work_Board
      Column_new_def)

lemma required_three_examples:
  "isColumnValid (work_board 3 3) 0" "isColumnValid (work_board 4 3) 0"
  "\<not> isColumnValid (work_board 2 3) 0" "\<not> isColumnValid (work_board 5 3) 0"
  "isColumnValid (work_board 3 3) 6" "\<not> isColumnValid (work_board 4 3) 6"
  "\<not> isColumnValid (work_board 2 3) 6" "\<not> isColumnValid (work_board 5 3) 6"
  "Board_isColumnValid (Work_Board 3 3) 0" "Board_isColumnValid (Work_Board 4 3) 0"
  "\<not> Board_isColumnValid (Work_Board 2 3) 0" "\<not> Board_isColumnValid (Work_Board 5 3) 0"
  "Board_isColumnValid (Work_Board 3 3) 6" "\<not> Board_isColumnValid (Work_Board 4 3) 6"
  "\<not> Board_isColumnValid (Work_Board 2 3) 6" "\<not> Board_isColumnValid (Work_Board 5 3) 6"
  by (simp_all add: isColumnValid_work_board Board_isColumnValid_Work_Board)

lemma isColumnValid_excluded_row_board: "isColumnValid excluded_row_board 0"
proof -
  have "js_index (columns excluded_row_board) 0 = Some \<lparr>col_index = 0, requiredWorkers = 1\<rparr>"
    by (simp add: excluded_row_board_def createEmptyState_def length_DAYS_OF_WEEK upt_7
        js_index_def)
  then show ?thesis
    by (simp add: isColumnValid_iff workCount_excluded_row_board)
qed

lemma Board_isColumnValid_Excluded_Row_Board: "Board_isColumnValid Excluded_Row_Board 0"
proof -
  have "Board_getColumn Excluded_Row_Board 0 = Some (Column_new 0 (Some 1))"
    by (simp add: Excluded_Row_Board_def Board_new_def Board_createDefaultColumns_def upt_7
        Board_getColumn_def js_index_def)
  then show ?thesis
    by (simp add: Board_isColumnValid_iff Board_workCount_Excluded_Row_Board Column_new_def)
qed

text \<open>
  C1: where a column is present at index \<open>c\<close>, \<open>isColumnValid\<close> holds exactly when, on
  Sunday (position 6), the work count equals the required count, and on the other days
  the work count equals the required count or the required count plus one. Class Board
  reads the position from the column's own \<open>index\<close> field, which is the position for
  the columns it is built with. In particular, with 3 required, counts 3 and 4 are valid
  and 2 and 5 are not on a weekday, and only 3 is valid on Sunday.
\<close>

theorem column_validity_rule:
  "(js_index (columns s) c = Some col \<longrightarrow>
      (isColumnValid s c \<longleftrightarrow>
         (if c = 6 then countPracaInColumn s c = requiredWorkers col
          else countPracaInColumn s c = requiredWorkers col
             \<or> countPracaInColumn s c = requiredWorkers col + 1)))
   \<and> (Board_getColumn b c = Some Col \<longrightarrow>
      (Board_isColumnValid b c \<longleftrightarrow>
         (if Column_index Col = 6 then Board_countPracaInColumn b c = Column_requiredWorkers Col
          else Board_countPracaInColumn b c = Column_requiredWorkers Col
             \<or> Board_countPracaInColumn b c = Column_requiredWorkers Col + 1)))
   \<and> (Board_getColumn b c = Some Col \<and> Column_index Col = c \<longrightarrow>
      (Board_isColumnValid b c \<longleftrightarrow>
         (if c = 6 then Board_countPracaInColumn b c = Column_requiredWorkers Col
          else Board_countPracaInColumn b c = Column_requiredWorkers Col
             \<or> Board_countPracaInColumn b c = Column_requiredWorkers Col + 1)))
   \<and> (js_index (columns s) c = Some col \<and> requiredWorkers col = 3 \<and> c \<noteq> 6 \<longrightarrow>
      (isColumnValid s c \<longleftrightarrow> countPracaInColumn s c = 3 \<or> countPracaInColumn s c = 4))
   \<and> (js_index (columns s) c = Some col \<and> requiredWorkers col = 3 \<and> c = 6 \<longrightarrow>
      (isColumnValid s c \<longleftrightarrow> countPracaInColumn s c = 3))
   \<and> (Board_getColumn b c = Some Col \<and> Column_index Col = c
        \<and> Column_requiredWorkers Col = 3 \<and> c \<noteq> 6 \<longrightarrow>
      (Board_isColumnValid b c \<longleftrightarrow>
         Board_countPracaInColumn b c = 3 \<or> Board_countPracaInColumn b c = 4))
   \<and> (Board_getColumn b c = Some Col \<and> Column_index Col = c
        \<and> Column_requiredWorkers Col = 3 \<and> c = 6 \<longrightarrow>
      (Board_isColumnValid b c \<longleftrightarrow> Board_countPracaInColumn b c = 3))"
proof -
  have st: "js_index (columns s) c = Some col \<Longrightarrow>
      (isColumnValid s c \<longleftrightarrow>
         (if c = 6 then countPracaInColumn s c = requiredWorkers col
          else countPracaInColumn s c = requiredWorkers col
             \<or> countPracaInColumn s c = requiredWorkers col + 1))"
    by (simp add: isColumnValid_def Let_def)
  have cl: "Board_getColumn b c = Some Col \<Longrightarrow>
      (Board_isColumnValid b c \<longleftrightarrow>
         (if Column_index Col = 6 then Board_countPracaInColumn b c = Column_requiredWorkers Col
          else Board_countPracaInColumn b c = Column_requiredWorkers Col
             \<or> Board_countPracaInColumn b c = Column_requiredWorkers Col + 1))"
    by (simp add: Board_isColumnValid_def Let_def Column_isSunday_def)
  show ?thesis
    using st cl by auto
qed

theorem column_validity_rule_witness:
  "js_index (columns (work_board 4 3)) 0 = Some \<lparr>col_index = 0, requiredWorkers = 3\<rparr>
   \<and> js_index (columns (work_board 4 3)) 6 = Some \<lparr>col_index = 6, requiredWorkers = 3\<rparr>
   \<and> Board_getColumn (Work_Board 4 3) 0 = Some (Column_new 0 (Some 3))
   \<and> Board_getColumn (Work_Board 4 3) 6 = Some (Column_new 6 (Some 3))
   \<and> Column_index (Column_new 0 (Some 3)) = 0
   \<and> Column_index (Column_new 6 (Some 3)) = 6
   \<and> countPracaInColumn (work_board 4 3) 0 = 4
   \<and> countPracaInColumn (work_board 4 3) 6 = 4
   \<and> isColumnValid (work_board 4 3) 0
   \<and> \<not> isColumnValid (work_board 4 3) 6
   \<and> Board_isColumnValid (Work_Board 4 3) 0
   \<and> \<not> Board_isColumnValid (Work_Board 4 3) 6"
proof -
  have c0: "js_index (columns (work_board 4 3)) 0 = Some \<lparr>col_index = 0, requiredWorkers = 3\<rparr>"
    by (simp add: column_work_board)
  have c6: "js_index (columns (work_board 4 3)) 6 = Some \<lparr>col_index = 6, requiredWorkers = 3\<rparr>"
    by (simp add: column_work_board)
  have C0: "Board_getColumn (Work_Board 4 3) 0 = Some (Column_new 0 (Some 3))"
    by (simp add: column_Work_Board)
  have C6: "Board_getColumn (Work_Board 4 3) 6 = Some (Column_new 6 (Some 3))"
    by (simp add: column_Work_Board)
  have n: "countPracaInColumn (work_board 4 3) 0 = 4" "countPracaInColumn (work_board 4 3) 6 = 4"
    by (simp_all add: countPracaInColumn_workCount workCount_work_board)
  have N: "Board_countPracaInColumn (Work_Board 4 3) 0 = 4"
    "Board_countPracaInColumn (Work_Board 4 3) 6 = 4"
    by (simp_all add: Board_countPracaInColumn_workCount Board_workCount_Work_Board)
  have i: "Column_index (Column_new 0 (Some 3)) = 0" "Column_index (Column_new 6 (Some 3)) = 6"
    "Column_requiredWorkers (Column_new 0 (Some 3)) = 3"
    "Column_requiredWorkers (Column_new 6 (Some 3)) = 3"
    by (simp_all add: Column_new_def)
  show ?thesis
    using c0 c6 C0 C6 n N i
      column_validity_rule [of "work_board 4 3" 0 "\<lparr>col_index = 0, requiredWorkers = 3\<rparr>"
        "Work_Board 4 3" "Column_new 0 (Some 3)"]
      column_validity_rule [of "work_board 4 3" 6 "\<lparr>col_index = 6, requiredWorkers = 3\<rparr>"
        "Work_Board 4 3" "Column_new 6 (Some 3)"]
    by simp
qed

text \<open>
  C2: \<open>countPracaInColumn\<close> is the number of rows whose inclusion flag is true and whose
  tile at the column has state Praca; a row whose flag is false adds nothing, whatever
  its tiles. A board with one included and one excluded working row in a weekday column
  with 1 required has work count 1 and a valid column.
\<close>

theorem work_count_of_included_rows:
  "countPracaInColumn s c = workCount s c
   \<and> Board_countPracaInColumn b c = Board_workCount b c
   \<and> (\<not> includedInCalculations r \<longrightarrow>
        countPracaInColumn (s\<lparr>rows := xs @ r # ys\<rparr>) c
          = countPracaInColumn (s\<lparr>rows := xs @ ys\<rparr>) c)
   \<and> (\<not> Row_includedInCalculations R \<longrightarrow>
        Board_countPracaInColumn (b\<lparr>Board_rows := Xs @ R # Ys\<rparr>) c
          = Board_countPracaInColumn (b\<lparr>Board_rows := Xs @ Ys\<rparr>) c)
   \<and> countPracaInColumn excluded_row_board 0 = 1
   \<and> isColumnValid excluded_row_board 0
   \<and> Board_countPracaInColumn Excluded_Row_Board 0 = 1
   \<and> Board_isColumnValid Excluded_Row_Board 0"
  by (simp add: countPracaInColumn_workCount Board_countPracaInColumn_workCount
      workCount_excluded Board_workCount_excluded workCount_excluded_row_board isColumnValid_excluded_row_board
      Board_workCount_Excluded_Row_Board Board_isColumnValid_Excluded_Row_Board)

theorem work_count_of_included_rows_witness:
  "\<not> includedInCalculations (work_row 1 False)
   \<and> \<not> Row_includedInCalculations (Work_Row 1 False)
   \<and> countPracaInColumn (excluded_row_board\<lparr>rows := [work_row 0 True] @ work_row 1 False # []\<rparr>) 0
       = countPracaInColumn (excluded_row_board\<lparr>rows := [work_row 0 True] @ []\<rparr>) 0
   \<and> Board_countPracaInColumn
         (Excluded_Row_Board\<lparr>Board_rows := [Work_Row 0 True] @ Work_Row 1 False # []\<rparr>) 0
       = Board_countPracaInColumn (Excluded_Row_Board\<lparr>Board_rows := [Work_Row 0 True] @ []\<rparr>) 0"
proof -
  have a: "\<not> includedInCalculations (work_row 1 False)"
    by (simp add: included_work_row)
  have b: "\<not> Row_includedInCalculations (Work_Row 1 False)"
    by (simp add: included_Work_Row)
  show ?thesis
    using a b
      work_count_of_included_rows [of excluded_row_board 0 Excluded_Row_Board
        "work_row 1 False" "[work_row 0 True]" "[]" "Work_Row 1 False" "[Work_Row 0 True]" "[]"]
    by blast
qed

section \<open>History: checkpoints, undo and redo\<close>

lemma pushState_fields:
  "undoStack (pushState sf h x) =
     (if int (length (undoStack h)) + 1 > maxHistorySize h
      then tl (undoStack h @ [sf x]) else undoStack h @ [sf x])"
  "redoStack (pushState sf h x) = []"
  "maxHistorySize (pushState sf h x) = maxHistorySize h"
  by (simp_all add: pushState_def Let_def)

lemma undo_empty: "undoStack h = [] \<Longrightarrow> undo sf pf h cur = (h, None)"
  by (simp add: undo_def)

lemma redo_empty: "redoStack h = [] \<Longrightarrow> redo sf pf h cur = (h, None)"
  by (simp add: redo_def)

lemma undo_nonempty:
  "undoStack h \<noteq> [] \<Longrightarrow>
     undo sf pf h cur =
       (h\<lparr>redoStack := redoStack h @ [sf cur], undoStack := butlast (undoStack h)\<rparr>,
        Some (pf (last (undoStack h))))"
  by (simp add: undo_def)

lemma redo_nonempty:
  "redoStack h \<noteq> [] \<Longrightarrow>
     redo sf pf h cur =
       (h\<lparr>undoStack := undoStack h @ [sf cur], redoStack := butlast (redoStack h)\<rparr>,
        Some (pf (last (redoStack h))))"
  by (simp add: redo_def)

lemma tl_drop_snoc:
  "k \<le> length xs \<Longrightarrow> tl (drop k xs @ [y]) = drop (Suc k) (xs @ [y])"
  by (cases "k < length xs") (simp_all add: drop_Suc tl_drop)

lemma pushStates_snoc:
  "pushStates sf h (xs @ [x]) = pushState sf (pushStates sf h xs) x"
  by (simp add: pushStates_def)

lemma pushStates_maxHistorySize:
  "maxHistorySize (pushStates sf h xs) = maxHistorySize h"
  by (induction xs rule: rev_induct) (simp_all add: pushStates_snoc pushState_fields, simp add: pushStates_def)

lemma pushStates_redoStack:
  "xs \<noteq> [] \<Longrightarrow> redoStack (pushStates sf h xs) = []"
  by (cases xs rule: rev_cases) (simp_all add: pushStates_snoc pushState_fields)

lemma pushStates_undoStack:
  assumes "0 \<le> maxHistorySize h" and "int (length (undoStack h)) \<le> maxHistorySize h"
  shows "undoStack (pushStates sf h xs) =
           drop (length (undoStack h) + length xs - nat (maxHistorySize h))
                (undoStack h @ map sf xs)"
proof (induction xs rule: rev_induct)
  case Nil
  from assms show ?case by (simp add: pushStates_def)
next
  case (snoc x xs)
  define m where "m = nat (maxHistorySize h)"
  define all where "all = undoStack h @ map sf xs"
  define k where "k = length (undoStack h) + length xs - m"
  define U where "U = undoStack (pushStates sf h xs)"
  have mh: "maxHistorySize h = int m"
    using assms by (simp add: m_def)
  have U: "U = drop k all"
    using snoc.IH by (simp add: U_def k_def all_def m_def)
  have la: "length all = length (undoStack h) + length xs"
    by (simp add: all_def)
  have k: "k \<le> length all"
    by (simp add: k_def la)
  have lenU: "length U = min (length all) m"
    by (simp add: U la k_def)
  have step: "undoStack (pushStates sf h (xs @ [x])) =
      (if int (length U) + 1 > int m then tl (U @ [sf x]) else U @ [sf x])"
    by (simp only: pushStates_snoc pushState_fields pushStates_maxHistorySize U_def mh)
  have goal: "drop (length (undoStack h) + length (xs @ [x]) - nat (maxHistorySize h))
                (undoStack h @ map sf (xs @ [x])) = drop (length all + 1 - m) (all @ [sf x])"
    by (simp add: all_def m_def)
  show ?case
  proof (cases "length all < m")
    case True
    then have "k = 0" "length all + 1 - m = 0" "length U < m"
      using lenU by (simp_all add: k_def la)
    then show ?thesis
      using step goal U by simp
  next
    case False
    then have full: "length U = m" and k1: "length all + 1 - m = Suc k"
      using lenU by (simp_all add: k_def la)
    have "undoStack (pushStates sf h (xs @ [x])) = tl (drop k all @ [sf x])"
      using step full U by simp
    also have "\<dots> = drop (Suc k) (all @ [sf x])"
      using k by (rule tl_drop_snoc)
    finally have "undoStack (pushStates sf h (xs @ [x])) = drop (Suc k) (all @ [sf x])" .
    then show ?thesis
      unfolding goal k1 .
  qed
qed

lemma pushStates_fresh:
  assumes "0 \<le> m" and "int (length xs) \<ge> m"
  shows "undoStack (pushStates sf (HistoryManager_new (Some m)) xs)
           = map sf (drop (length xs - nat m) xs)"
    and "int (length (undoStack (pushStates sf (HistoryManager_new (Some m)) xs))) = m"
proof -
  have "undoStack (pushStates sf (HistoryManager_new (Some m)) xs)
         = drop (length xs - nat m) (map sf xs)"
    using assms pushStates_undoStack [of "HistoryManager_new (Some m)" sf xs]
    by (simp add: HistoryManager_new_def)
  then show "undoStack (pushStates sf (HistoryManager_new (Some m)) xs)
           = map sf (drop (length xs - nat m) xs)"
    by (simp add: drop_map)
  then show "int (length (undoStack (pushStates sf (HistoryManager_new (Some m)) xs))) = m"
    using assms by simp
qed

lemma undos_results:
  "undos sf pf h cs =
     map (\<lambda>s. Some (pf s)) (take (length cs) (rev (undoStack h)))
     @ replicate (length cs - length (undoStack h)) None"
proof (induction cs arbitrary: h)
  case Nil
  show ?case by simp
next
  case (Cons c cs)
  show ?case
  proof (cases "undoStack h = []")
    case True
    then show ?thesis
      by (simp add: undo_empty Cons.IH replicate_Suc [symmetric] del: replicate_Suc)
  next
    case False
    then obtain us u where us: "undoStack h = us @ [u]"
      by (cases "undoStack h" rule: rev_cases) auto
    then show ?thesis
      by (simp add: undo_nonempty Cons.IH)
  qed
qed

lemma undos_successes:
  "length (filter (\<lambda>r. r \<noteq> None) (undos sf pf h cs)) = min (length cs) (length (undoStack h))"
  by (simp add: undos_results o_def)

lemma pushState_top:
  assumes "0 < maxHistorySize h"
  shows "undoStack (pushState sf h x) \<noteq> [] \<and> last (undoStack (pushState sf h x)) = sf x"
proof (cases "undoStack h")
  case Nil
  with assms show ?thesis by (simp add: pushState_fields)
next
  case (Cons u us)
  then show ?thesis by (simp add: pushState_fields)
qed

lemma apply_call_sum:
  assumes "int (length (undoStack h) + length (redoStack h)) \<le> maxHistorySize h"
  shows "int (length (undoStack (apply_call sf pf h call))
            + length (redoStack (apply_call sf pf h call)))
           \<le> maxHistorySize (apply_call sf pf h call)
         \<and> maxHistorySize (apply_call sf pf h call) = maxHistorySize h"
proof (cases call)
  case (PushState x)
  with assms show ?thesis by (simp add: pushState_fields)
next
  case (Undo x)
  show ?thesis
  proof (cases "undoStack h" rule: rev_cases)
    case Nil
    with assms Undo show ?thesis by (simp add: undo_empty)
  next
    case (snoc us u)
    with assms Undo show ?thesis by (simp add: undo_nonempty)
  qed
next
  case (Redo x)
  show ?thesis
  proof (cases "redoStack h" rule: rev_cases)
    case Nil
    with assms Redo show ?thesis by (simp add: redo_empty)
  next
    case (snoc rs r)
    with assms Redo show ?thesis by (simp add: redo_nonempty)
  qed
qed

lemma history_run_sum:
  assumes "int (length (undoStack h) + length (redoStack h)) \<le> maxHistorySize h"
  shows "int (length (undoStack (history_run sf pf h calls))
            + length (redoStack (history_run sf pf h calls)))
           \<le> maxHistorySize h
         \<and> maxHistorySize (history_run sf pf h calls) = maxHistorySize h"
proof (induction calls rule: rev_induct)
  case Nil
  from assms show ?case by (simp add: history_run_def)
next
  case (snoc c cs)
  have "history_run sf pf h (cs @ [c]) = apply_call sf pf (history_run sf pf h cs) c"
    by (simp add: history_run_def)
  with snoc apply_call_sum [of "history_run sf pf h cs" sf pf c] show ?case
    by simp
qed

lemma undo_redo_keep_sum:
  "length (undoStack (fst (undo sf pf h cur))) + length (redoStack (fst (undo sf pf h cur)))
     = length (undoStack h) + length (redoStack h)"
  "length (undoStack (fst (redo sf pf h cur))) + length (redoStack (fst (redo sf pf h cur)))
     = length (undoStack h) + length (redoStack h)"
  by (cases "undoStack h" rule: rev_cases, simp_all add: undo_empty undo_nonempty)
     (cases "redoStack h" rule: rev_cases, simp_all add: redo_empty redo_nonempty)

text \<open>
  C4: \<open>pushState\<close> puts the snapshot on the undo stack, empties the redo stack (a redo
  right after it returns null and changes nothing) and, when the undo stack is then
  longer than \<open>maxHistorySize\<close> (100 by default), drops its oldest entry. On a manager
  whose undo stack is within the capacity, as that of a new manager is, after more
  checkpoints than the capacity the undo stack holds exactly as many entries as the
  capacity, the most recent ones, and of any run of undos that follows at most that many
  succeed: they return the entries newest first, then null.
\<close>

theorem pushState_checkpoint:
  "undoStack (pushState sf h x) =
     (if int (length (undoStack h)) + 1 > maxHistorySize h
      then tl (undoStack h @ [sf x]) else undoStack h @ [sf x])
   \<and> redoStack (pushState sf h x) = []
   \<and> redo sf pf (pushState sf h x) cur = (pushState sf h x, None)
   \<and> maxHistorySize (HistoryManager_new None :: 's HistoryManager) = 100
   \<and> undoStack (HistoryManager_new size_opt :: 's HistoryManager) = []
   \<and> (int (length (undoStack h)) \<le> maxHistorySize h \<and> maxHistorySize h < int (length xs) \<longrightarrow>
        undoStack (pushStates sf h xs)
          = map sf (drop (length xs - nat (maxHistorySize h)) xs)
        \<and> int (length (undoStack (pushStates sf h xs))) = maxHistorySize h
        \<and> redoStack (pushStates sf h xs) = []
        \<and> length (filter (\<lambda>r. r \<noteq> None) (undos sf pf (pushStates sf h xs) cs))
            \<le> nat (maxHistorySize h)
        \<and> undos sf pf (pushStates sf h xs) cs
          = map (\<lambda>s. Some (pf s))
              (take (length cs) (rev (map sf (drop (length xs - nat (maxHistorySize h)) xs))))
            @ replicate (length cs - nat (maxHistorySize h)) None)"
proof -
  have single: "redo sf pf (pushState sf h x) cur = (pushState sf h x, None)"
    by (simp add: redo_empty pushState_fields)
  have dflt: "maxHistorySize (HistoryManager_new None :: 's HistoryManager) = 100"
    "undoStack (HistoryManager_new size_opt :: 's HistoryManager) = []"
    by (simp_all add: HistoryManager_new_def)
  have many: "undoStack (pushStates sf h xs)
          = map sf (drop (length xs - nat (maxHistorySize h)) xs)
        \<and> int (length (undoStack (pushStates sf h xs))) = maxHistorySize h
        \<and> redoStack (pushStates sf h xs) = []
        \<and> length (filter (\<lambda>r. r \<noteq> None) (undos sf pf (pushStates sf h xs) cs))
            \<le> nat (maxHistorySize h)
        \<and> undos sf pf (pushStates sf h xs) cs
          = map (\<lambda>s. Some (pf s))
              (take (length cs) (rev (map sf (drop (length xs - nat (maxHistorySize h)) xs))))
            @ replicate (length cs - nat (maxHistorySize h)) None"
    if a: "int (length (undoStack h)) \<le> maxHistorySize h"
      and b: "maxHistorySize h < int (length xs)"
  proof -
    let ?h = "pushStates sf h xs"
    let ?m = "nat (maxHistorySize h)"
    have m0: "0 \<le> maxHistorySize h" using a by linarith
    have mN: "?m \<le> length xs" using b by linarith
    have "undoStack ?h = drop (length (undoStack h) + length xs - ?m) (undoStack h @ map sf xs)"
      using m0 a by (rule pushStates_undoStack)
    also have "length (undoStack h) + length xs - ?m = length (undoStack h) + (length xs - ?m)"
      using mN by simp
    also have "drop (length (undoStack h) + (length xs - ?m)) (undoStack h @ map sf xs)
        = map sf (drop (length xs - ?m) xs)"
      by (simp add: drop_map)
    finally have u: "undoStack ?h = map sf (drop (length xs - ?m) xs)" .
    have l': "length (undoStack ?h) = ?m"
      using mN by (simp add: u)
    then have l: "int (length (undoStack ?h)) = maxHistorySize h"
      using m0 by simp
    have r: "redoStack ?h = []"
      using m0 b by (intro pushStates_redoStack) auto
    have s: "length (filter (\<lambda>r. r \<noteq> None) (undos sf pf ?h cs)) \<le> ?m"
      using undos_successes [of sf pf ?h cs] l' by linarith
    have e: "undos sf pf ?h cs
          = map (\<lambda>s. Some (pf s)) (take (length cs) (rev (map sf (drop (length xs - ?m) xs))))
            @ replicate (length cs - ?m) None"
    proof -
      have lm: "length (map sf (drop (length xs - ?m) xs)) = ?m"
        using u l' by simp
      show ?thesis
        using undos_results [of sf pf ?h cs] by (simp only: u lm)
    qed
    show ?thesis using u l r s e by blast
  qed
  show ?thesis
    using pushState_fields(1) [of sf h x] pushState_fields(2) [of sf h x] single dflt many
    by blast
qed

theorem pushState_checkpoint_witness:
  "int (length (undoStack (HistoryManager_new (Some 2) :: nat HistoryManager)))
     \<le> maxHistorySize (HistoryManager_new (Some 2) :: nat HistoryManager)
   \<and> maxHistorySize (HistoryManager_new (Some 2) :: nat HistoryManager)
       < int (length [1, 2, 3::nat])
   \<and> undoStack (pushStates Suc (HistoryManager_new (Some 2)) [1, 2, 3]) = [3, 4]
   \<and> undos Suc (\<lambda>s. s - 1) (pushStates Suc (HistoryManager_new (Some 2)) [1, 2, 3]) [7, 8, 9]
       = [Some 3, Some 2, None]"
proof -
  have m: "maxHistorySize (HistoryManager_new (Some 2) :: nat HistoryManager) = 2"
    by (simp add: HistoryManager_new_def)
  have a: "int (length (undoStack (HistoryManager_new (Some 2) :: nat HistoryManager)))
            \<le> maxHistorySize (HistoryManager_new (Some 2) :: nat HistoryManager)
          \<and> maxHistorySize (HistoryManager_new (Some 2) :: nat HistoryManager)
            < int (length [1, 2, 3::nat])"
    by (simp add: HistoryManager_new_def)
  have u: "undoStack (pushStates Suc (HistoryManager_new (Some 2)) [1, 2, 3::nat])
        = map Suc (drop (length [1, 2, 3::nat]
            - nat (maxHistorySize (HistoryManager_new (Some 2) :: nat HistoryManager))) [1, 2, 3])"
    and e: "undos Suc (\<lambda>s. s - 1) (pushStates Suc (HistoryManager_new (Some 2)) [1, 2, 3::nat])
          [7, 8, 9]
        = map (\<lambda>s. Some (s - 1))
            (take (length [7, 8, 9::nat]) (rev (map Suc (drop (length [1, 2, 3::nat]
              - nat (maxHistorySize (HistoryManager_new (Some 2) :: nat HistoryManager)))
              [1, 2, 3]))))
          @ replicate (length [7, 8, 9::nat]
              - nat (maxHistorySize (HistoryManager_new (Some 2) :: nat HistoryManager))) None"
    using a
      pushState_checkpoint [of Suc "HistoryManager_new (Some 2)" 0 "\<lambda>s. s - 1" 0 None
        "[1, 2, 3]" "[7, 8, 9]"]
    by blast+
  show ?thesis
    using a unfolding u e m by simp
qed

text \<open>
  C5: \<open>undo\<close> on an empty undo stack and \<open>redo\<close> on an empty redo stack return null and
  leave the manager as it is; both are plain results, no error is raised. On a
  non-empty undo stack \<open>undo\<close> pushes the current state on the redo stack and takes off
  and returns the top of the undo stack, which is the snapshot of the last checkpoint;
  \<open>redo\<close> is the mirror image.
\<close>

theorem undo_redo_results:
  "(undoStack h = [] \<longrightarrow> undo sf pf h cur = (h, None))
   \<and> (redoStack h = [] \<longrightarrow> redo sf pf h cur = (h, None))
   \<and> (undoStack h = us @ [u] \<longrightarrow>
        undo sf pf h cur = (h\<lparr>redoStack := redoStack h @ [sf cur], undoStack := us\<rparr>, Some (pf u)))
   \<and> (redoStack h = rs @ [r] \<longrightarrow>
        redo sf pf h cur = (h\<lparr>undoStack := undoStack h @ [sf cur], redoStack := rs\<rparr>, Some (pf r)))
   \<and> (pf (sf x) = x \<and> 0 < maxHistorySize h \<longrightarrow>
        snd (undo sf pf (pushState sf h x) cur) = Some x)
   \<and> (pf (sf cur) = cur \<and> undoStack h \<noteq> [] \<longrightarrow>
        snd (redo sf pf (fst (undo sf pf h cur)) cur') = Some cur)"
proof -
  have top: "snd (undo sf pf (pushState sf h x) cur) = Some x"
    if "pf (sf x) = x" and "0 < maxHistorySize h"
    using that pushState_top [of h sf x] by (simp add: undo_nonempty)
  have again: "snd (redo sf pf (fst (undo sf pf h cur)) cur') = Some cur"
    if "pf (sf cur) = cur" and "undoStack h \<noteq> []"
    using that by (simp add: undo_nonempty redo_nonempty)
  show ?thesis
    using top again by (auto simp add: undo_empty redo_empty undo_nonempty redo_nonempty)
qed

theorem undo_redo_results_witness:
  "undoStack (HistoryManager_new None :: nat HistoryManager) = []
   \<and> redoStack (HistoryManager_new None :: nat HistoryManager) = []
   \<and> undo Suc (\<lambda>s. s - 1) (HistoryManager_new None) (5::nat) = (HistoryManager_new None, None)
   \<and> redo Suc (\<lambda>s. s - 1) (HistoryManager_new None) (5::nat) = (HistoryManager_new None, None)
   \<and> (\<lambda>s. s - 1) (Suc 7) = (7::nat)
   \<and> 0 < maxHistorySize (HistoryManager_new None :: nat HistoryManager)
   \<and> snd (undo Suc (\<lambda>s. s - 1) (pushState Suc (HistoryManager_new None) (7::nat)) 5) = Some 7"
proof -
  have a: "undoStack (HistoryManager_new None :: nat HistoryManager) = []"
    "redoStack (HistoryManager_new None :: nat HistoryManager) = []"
    "0 < maxHistorySize (HistoryManager_new None :: nat HistoryManager)"
    by (simp_all add: HistoryManager_new_def)
  have b: "(\<lambda>s. s - 1) (Suc 7) = (7::nat)" by simp
  show ?thesis
    using a b
      undo_redo_results [of "HistoryManager_new None :: nat HistoryManager" Suc "\<lambda>s. s - 1" 5
        "[]" 0 "[]" 0 7 5]
    by simp
qed

text \<open>
  C9: both stacks stay bounded. On a manager made with a capacity that is not negative,
  after any sequence of \<open>pushState\<close>, \<open>undo\<close> and \<open>redo\<close> calls neither stack is longer
  than \<open>maxHistorySize\<close>: the two lengths together never exceed it, since \<open>pushState\<close>
  empties the redo stack and trims the undo stack, and \<open>undo\<close> and \<open>redo\<close>, which check
  no capacity, keep the sum of the lengths.
\<close>

theorem history_stacks_bounded:
  assumes "0 \<le> maxHistorySize (HistoryManager_new size_opt :: 's HistoryManager)"
  shows "int (length (undoStack (history_run sf pf (HistoryManager_new size_opt :: 's HistoryManager) calls)))
           \<le> maxHistorySize (HistoryManager_new size_opt :: 's HistoryManager)
       \<and> int (length (redoStack (history_run sf pf (HistoryManager_new size_opt :: 's HistoryManager) calls)))
           \<le> maxHistorySize (HistoryManager_new size_opt :: 's HistoryManager)
       \<and> int (length (undoStack (history_run sf pf (HistoryManager_new size_opt :: 's HistoryManager) calls))
              + length (redoStack (history_run sf pf (HistoryManager_new size_opt :: 's HistoryManager) calls)))
           \<le> maxHistorySize (HistoryManager_new size_opt :: 's HistoryManager)
       \<and> maxHistorySize (history_run sf pf (HistoryManager_new size_opt :: 's HistoryManager) calls)
           = maxHistorySize (HistoryManager_new size_opt :: 's HistoryManager)
       \<and> length (undoStack (fst (undo sf pf h cur))) + length (redoStack (fst (undo sf pf h cur)))
           = length (undoStack h) + length (redoStack h)
       \<and> length (undoStack (fst (redo sf pf h cur))) + length (redoStack (fst (redo sf pf h cur)))
           = length (undoStack h) + length (redoStack h)"
proof -
  let ?h0 = "HistoryManager_new size_opt :: 's HistoryManager"
  have "int (length (undoStack ?h0) + length (redoStack ?h0)) \<le> maxHistorySize ?h0"
    using assms by (simp add: HistoryManager_new_def)
  from history_run_sum [OF this, of sf pf calls] undo_redo_keep_sum [of sf pf h cur]
  show ?thesis by simp
qed

theorem history_stacks_bounded_witness:
  "0 \<le> maxHistorySize (HistoryManager_new (Some 2) :: nat HistoryManager)
   \<and> history_run Suc (\<lambda>s. s) (HistoryManager_new (Some 2))
        [PushState (10::nat), PushState 20, PushState 30, Undo 40, Undo 50, Undo 60, Redo 70]
       = \<lparr>undoStack = [71], redoStack = [41], maxHistorySize = 2\<rparr>
   \<and> int (length (undoStack (history_run Suc (\<lambda>s. s) (HistoryManager_new (Some 2))
        [PushState (10::nat), PushState 20, PushState 30, Undo 40, Undo 50, Undo 60, Redo 70])))
       \<le> maxHistorySize (HistoryManager_new (Some 2) :: nat HistoryManager)
   \<and> int (length (redoStack (history_run Suc (\<lambda>s. s) (HistoryManager_new (Some 2))
        [PushState (10::nat), PushState 20, PushState 30, Undo 40, Undo 50, Undo 60, Redo 70])))
       \<le> maxHistorySize (HistoryManager_new (Some 2) :: nat HistoryManager)"
proof -
  have a: "0 \<le> maxHistorySize (HistoryManager_new (Some 2) :: nat HistoryManager)"
    by (simp add: HistoryManager_new_def)
  have b: "history_run Suc (\<lambda>s. s) (HistoryManager_new (Some 2))
        [PushState (10::nat), PushState 20, PushState 30, Undo 40, Undo 50, Undo 60, Redo 70]
      = \<lparr>undoStack = [71], redoStack = [41], maxHistorySize = 2\<rparr>"
    by (simp add: history_run_def HistoryManager_new_def pushState_def undo_def redo_def)
  show ?thesis
    using a b
      history_stacks_bounded [OF a, of Suc "\<lambda>s. s"
        "[PushState (10::nat), PushState 20, PushState 30, Undo 40, Undo 50, Undo 60, Redo 70]"
        "HistoryManager_new (Some 2)" 0]
    by blast
qed

section \<open>Structural mutations of the board\<close>

lemma rows_reindexRows:
  "rows (reindexRows s) =
     map (\<lambda>(i, r). r\<lparr>row_index := int i, tiles := map (\<lambda>t. t\<lparr>rowIndex := int i\<rparr>) (tiles r)\<rparr>)
         (enumerate 0 (rows s))"
  by (simp add: reindexRows_def)

lemma map_fst_enumerate_int:
  "map (\<lambda>(i, r). f i) (enumerate n xs) = map f [n..<n + length xs]"
proof -
  have "map (\<lambda>(i, r). f i) (enumerate n xs) = map (f \<circ> fst) (enumerate n xs)"
    by (rule map_cong) auto
  also have "\<dots> = map f (map fst (enumerate n xs))"
    by (simp only: map_map)
  also have "\<dots> = map f [n..<n + length xs]"
    by (simp only: map_fst_enumerate)
  finally show ?thesis .
qed

lemma map_snd_enumerate_fun:
  "map (\<lambda>(i, r). f r) (enumerate n xs) = map f xs"
proof -
  have "map (\<lambda>(i, r). f r) (enumerate n xs) = map (f \<circ> snd) (enumerate n xs)"
    by (rule map_cong) auto
  also have "\<dots> = map f (map snd (enumerate n xs))"
    by (simp only: map_map)
  also have "\<dots> = map f xs"
    by (simp only: map_snd_enumerate)
  finally show ?thesis .
qed

lemma rows_dense_reindexRows: "rows_dense (rows (reindexRows s))"
proof -
  have "map row_index (rows (reindexRows s)) = map (\<lambda>(i, r). int i) (enumerate 0 (rows s))"
    by (simp add: rows_reindexRows case_prod_beta o_def)
  then have "map row_index (rows (reindexRows s)) = map int [0..<length (rows (reindexRows s))]"
    by (simp add: map_fst_enumerate_int rows_reindexRows)
  moreover have "list_all (\<lambda>r. list_all (\<lambda>t. rowIndex t = row_index r) (tiles r))
      (rows (reindexRows s))"
    by (auto simp add: rows_reindexRows list_all_iff)
  ultimately show ?thesis by (simp add: rows_dense_def)
qed

lemma week_tiles_reindexRows:
  "list_all week_tiles (rows s) \<Longrightarrow> list_all week_tiles (rows (reindexRows s))"
  by (auto simp add: rows_reindexRows list_all_iff week_tiles_def o_def in_set_enumerate_eq)

lemma length_reindexRows: "length (rows (reindexRows s)) = length (rows s)"
  by (simp add: rows_reindexRows)

lemma content_reindexRows:
  "map row_content (rows (reindexRows s)) = map row_content (rows s)"
proof -
  have "map row_content (rows (reindexRows s)) = map (\<lambda>(i, r). row_content r) (enumerate 0 (rows s))"
    by (simp add: rows_reindexRows row_content_def case_prod_beta o_def)
  then show ?thesis
    by (simp only: map_snd_enumerate_fun)
qed

lemma reindexRows_others:
  "columns (reindexRows s) = columns s" "board_state.more (reindexRows s) = board_state.more s"
  by (simp_all add: reindexRows_def)

lemma set_splice1: "set (splice1 xs i) \<subseteq> set xs"
  by (auto simp add: splice1_def dest: in_set_takeD in_set_dropD)

lemma length_splice1: "i < length xs \<Longrightarrow> length (splice1 xs i) = length xs - 1"
  by (simp add: splice1_def)

lemma map_splice1: "map f (splice1 xs i) = splice1 (map f xs) i"
  by (simp add: splice1_def take_map drop_map)

lemma set_swap_pair: "a < length xs \<Longrightarrow> b < length xs \<Longrightarrow> set (xs[a := xs ! b, b := xs ! a]) = set xs"
  using set_swap [of a xs b] by simp

lemma removeRow_valid:
  "0 \<le> p \<Longrightarrow> p < int (length (rows s)) \<Longrightarrow>
     removeRow s p = (reindexRows (s\<lparr>rows := splice1 (rows s) (nat p)\<rparr>), True)"
  by (simp add: removeRow_def)

lemma removeRow_invalid:
  "\<not> (0 \<le> p \<and> p < int (length (rows s))) \<Longrightarrow> removeRow s p = (s, False)"
  by (auto simp add: removeRow_def)

lemma removeRow_success: "snd (removeRow s p) \<longleftrightarrow> 0 \<le> p \<and> p < int (length (rows s))"
  by (simp add: removeRow_def)

lemma moveRowUp_valid:
  "0 < p \<Longrightarrow> p < int (length (rows s)) \<Longrightarrow>
     moveRowUp s p =
       (reindexRows (s\<lparr>rows := (rows s)[nat p := rows s ! (nat p - 1),
                                          nat p - 1 := rows s ! nat p]\<rparr>), True)"
  by (simp add: moveRowUp_def swapRows_def Let_def nat_diff_distrib)

lemma moveRowUp_invalid:
  "\<not> (0 < p \<and> p < int (length (rows s))) \<Longrightarrow> moveRowUp s p = (s, False)"
  by (auto simp add: moveRowUp_def)

lemma moveRowUp_success: "snd (moveRowUp s p) \<longleftrightarrow> 0 < p \<and> p < int (length (rows s))"
  by (simp add: moveRowUp_def)

lemma moveRowDown_valid:
  "0 \<le> p \<Longrightarrow> p < int (length (rows s)) - 1 \<Longrightarrow>
     moveRowDown s p =
       (reindexRows (s\<lparr>rows := (rows s)[nat p := rows s ! (nat p + 1),
                                          nat p + 1 := rows s ! nat p]\<rparr>), True)"
  by (simp add: moveRowDown_def swapRows_def Let_def nat_add_distrib)

lemma moveRowDown_invalid:
  "\<not> (0 \<le> p \<and> p < int (length (rows s)) - 1) \<Longrightarrow> moveRowDown s p = (s, False)"
  by (auto simp add: moveRowDown_def)

lemma moveRowDown_success:
  "snd (moveRowDown s p) \<longleftrightarrow> 0 \<le> p \<and> p < int (length (rows s)) - 1"
  by (simp add: moveRowDown_def)

lemma week_tiles_splice1:
  "list_all week_tiles rs \<Longrightarrow> list_all week_tiles (splice1 rs i)"
  using set_splice1 [of rs i] by (auto simp add: list_all_iff)

lemma week_tiles_swap:
  "list_all week_tiles rs \<Longrightarrow> a < length rs \<Longrightarrow> b < length rs \<Longrightarrow>
     list_all week_tiles (rs[a := rs ! b, b := rs ! a])"
  by (simp add: list_all_iff set_swap_pair)

lemma rows_dense_addRow:
  "rows_dense (rows s) \<Longrightarrow> rows_dense (rows (fst (addRow s hdr)))"
  by (simp add: rows_dense_def addRow_def Let_def list_all_iff)

lemma week_tiles_addRow:
  "list_all week_tiles (rows s) \<Longrightarrow> list_all week_tiles (rows (fst (addRow s hdr)))"
  by (simp add: addRow_def Let_def week_tiles_def length_DAYS_OF_WEEK o_def)

lemma rows_dense_removeRow:
  "rows_dense (rows s) \<or> snd (removeRow s p) \<Longrightarrow> rows_dense (rows (fst (removeRow s p)))"
  by (cases "0 \<le> p \<and> p < int (length (rows s))")
     (auto simp add: removeRow_valid removeRow_invalid rows_dense_reindexRows)

lemma week_tiles_removeRow:
  "list_all week_tiles (rows s) \<Longrightarrow> list_all week_tiles (rows (fst (removeRow s p)))"
  by (cases "0 \<le> p \<and> p < int (length (rows s))")
     (auto simp add: removeRow_valid removeRow_invalid week_tiles_reindexRows week_tiles_splice1)

lemma rows_dense_moveRowUp:
  "rows_dense (rows s) \<or> snd (moveRowUp s p) \<Longrightarrow> rows_dense (rows (fst (moveRowUp s p)))"
  by (cases "0 < p \<and> p < int (length (rows s))")
     (auto simp add: moveRowUp_valid moveRowUp_invalid rows_dense_reindexRows)

lemma week_tiles_moveRowUp:
  assumes "list_all week_tiles (rows s)"
  shows "list_all week_tiles (rows (fst (moveRowUp s p)))"
proof (cases "0 < p \<and> p < int (length (rows s))")
  case True
  then have "nat p < length (rows s)" "nat p - 1 < length (rows s)" by auto
  with assms True show ?thesis
    by (simp add: moveRowUp_valid week_tiles_reindexRows week_tiles_swap)
next
  case False
  with assms show ?thesis by (simp add: moveRowUp_invalid)
qed

lemma rows_dense_moveRowDown:
  "rows_dense (rows s) \<or> snd (moveRowDown s p) \<Longrightarrow> rows_dense (rows (fst (moveRowDown s p)))"
  by (cases "0 \<le> p \<and> p < int (length (rows s)) - 1")
     (auto simp add: moveRowDown_valid moveRowDown_invalid rows_dense_reindexRows)

lemma week_tiles_moveRowDown:
  assumes "list_all week_tiles (rows s)"
  shows "list_all week_tiles (rows (fst (moveRowDown s p)))"
proof (cases "0 \<le> p \<and> p < int (length (rows s)) - 1")
  case True
  then have "nat p < length (rows s)" "nat p + 1 < length (rows s)" by auto
  with assms True show ?thesis
    by (simp add: moveRowDown_valid week_tiles_reindexRows week_tiles_swap)
next
  case False
  with assms show ?thesis by (simp add: moveRowDown_invalid)
qed

text \<open>The same for class Board.\<close>

lemma Board_removeRow_rows:
  "0 \<le> p \<Longrightarrow> p < int (length (Board_rows b)) \<Longrightarrow>
     Board_rows (fst (Board_removeRow b p)) =
       map (\<lambda>(i, r). Row_updateIndex r (int i)) (enumerate 0 (splice1 (Board_rows b) (nat p)))"
  by (simp add: Board_removeRow_def)

lemma Board_removeRow_invalid:
  "\<not> (0 \<le> p \<and> p < int (length (Board_rows b))) \<Longrightarrow> Board_removeRow b p = (b, False)"
  by (auto simp add: Board_removeRow_def)

lemma Rows_dense_updateIndex:
  "Rows_dense (map (\<lambda>(i, r). Row_updateIndex r (int i)) (enumerate 0 rs))"
proof -
  have "map Row_index (map (\<lambda>(i, r). Row_updateIndex r (int i)) (enumerate 0 rs))
      = map (\<lambda>(i, r). int i) (enumerate 0 rs)"
    by (simp add: Row_updateIndex_def case_prod_beta o_def)
  then have "map Row_index (map (\<lambda>(i, r). Row_updateIndex r (int i)) (enumerate 0 rs))
      = map int [0..<length (map (\<lambda>(i, r). Row_updateIndex r (int i)) (enumerate 0 rs))]"
    by (simp add: map_fst_enumerate_int)
  moreover have "list_all (\<lambda>r. list_all (\<lambda>t. Tile_rowIndex t = Row_index r) (Row_tiles r))
      (map (\<lambda>(i, r). Row_updateIndex r (int i)) (enumerate 0 rs))"
    by (auto simp add: list_all_iff Row_updateIndex_def)
  ultimately show ?thesis by (simp add: Rows_dense_def)
qed

lemma Week_Tiles_updateIndex:
  "list_all Week_Tiles rs \<Longrightarrow>
     list_all Week_Tiles (map (\<lambda>(i, r). Row_updateIndex r (int i)) (enumerate 0 rs))"
  by (auto simp add: list_all_iff Week_Tiles_def Row_updateIndex_def o_def in_set_enumerate_eq)

lemma Week_Tiles_splice1:
  "list_all Week_Tiles rs \<Longrightarrow> list_all Week_Tiles (splice1 rs i)"
  using set_splice1 [of rs i] by (auto simp add: list_all_iff)

lemma Rows_dense_Board_removeRow:
  "Rows_dense (Board_rows b) \<or> snd (Board_removeRow b p) \<Longrightarrow>
     Rows_dense (Board_rows (fst (Board_removeRow b p)))"
  by (cases "0 \<le> p \<and> p < int (length (Board_rows b))")
     (auto simp add: Board_removeRow_rows Board_removeRow_invalid Rows_dense_updateIndex)

lemma Week_Tiles_Board_removeRow:
  "list_all Week_Tiles (Board_rows b) \<Longrightarrow>
     list_all Week_Tiles (Board_rows (fst (Board_removeRow b p)))"
  by (cases "0 \<le> p \<and> p < int (length (Board_rows b))")
     (auto simp add: Board_removeRow_rows Board_removeRow_invalid Week_Tiles_updateIndex
       Week_Tiles_splice1)

lemma Rows_dense_Board_addRow:
  "Rows_dense (Board_rows b) \<Longrightarrow> Rows_dense (Board_rows (fst (Board_addRow b hdr)))"
  by (simp add: Rows_dense_def Board_addRow_def Let_def list_all_iff Row_new_def
      Row_createDefaultTiles_def Tile_new_def)

lemma Week_Tiles_Board_addRow:
  "list_all Week_Tiles (Board_rows b) \<Longrightarrow>
     list_all Week_Tiles (Board_rows (fst (Board_addRow b hdr)))"
  by (simp add: Board_addRow_def Let_def Week_Tiles_def Row_new_def Row_createDefaultTiles_def
      Tile_new_def o_def)

lemma content_removeRow:
  "0 \<le> p \<Longrightarrow> p < int (length (rows s)) \<Longrightarrow>
     map row_content (rows (fst (removeRow s p))) = splice1 (map row_content (rows s)) (nat p)"
  by (simp add: removeRow_valid content_reindexRows map_splice1)

lemma content_moveRowUp:
  assumes "0 < p" and "p < int (length (rows s))"
  shows "map row_content (rows (fst (moveRowUp s p))) =
           (map row_content (rows s))[nat p := map row_content (rows s) ! (nat p - 1),
                                      nat p - 1 := map row_content (rows s) ! nat p]"
proof -
  from assms have "nat p < length (rows s)" "nat p - 1 < length (rows s)" by auto
  with assms show ?thesis
    by (simp add: moveRowUp_valid content_reindexRows map_update)
qed

lemma content_moveRowDown:
  assumes "0 \<le> p" and "p < int (length (rows s)) - 1"
  shows "map row_content (rows (fst (moveRowDown s p))) =
           (map row_content (rows s))[nat p := map row_content (rows s) ! (nat p + 1),
                                      nat p + 1 := map row_content (rows s) ! nat p]"
proof -
  from assms have "nat p < length (rows s)" "nat p + 1 < length (rows s)" by auto
  with assms show ?thesis
    by (simp add: moveRowDown_valid content_reindexRows map_update)
qed

lemma setColumnRequiredWorkers_valid:
  "0 \<le> c \<Longrightarrow> c < int (length (columns s)) \<Longrightarrow> 0 < n \<Longrightarrow>
     setColumnRequiredWorkers s c n =
       s\<lparr>columns := (columns s)[nat c := (columns s ! nat c)\<lparr>requiredWorkers := n\<rparr>]\<rparr>"
  by (simp add: setColumnRequiredWorkers_def js_index_def)

lemma setColumnRequiredWorkers_invalid:
  "\<not> (0 \<le> c \<and> c < int (length (columns s)) \<and> 0 < n) \<Longrightarrow> setColumnRequiredWorkers s c n = s"
  by (auto simp add: setColumnRequiredWorkers_def js_index_def)

lemma row_mutations_invalid:
  assumes "\<not> (0 \<le> p \<and> p < int (length (rows s)))"
  shows "setRowHeader s p hdr = s" "setRowIncluded s p inc = s" "toggleTileState s p c = (s, None)"
  using assms by (auto simp add: setRowHeader_def setRowIncluded_def toggleTileState_def js_index_def)

lemma length_three_row_board: "length (rows three_row_board) = 3"
  by (simp add: three_row_board_def addRow_def Let_def createEmptyState_def)

lemma length_columns_three_row_board: "length (columns three_row_board) = 7"
  by (simp add: three_row_board_def addRow_def Let_def createEmptyState_def length_DAYS_OF_WEEK)

lemma dense_three_row_board:
  "rows_dense (rows three_row_board)" "list_all week_tiles (rows three_row_board)"
proof -
  have e: "rows_dense (rows createEmptyState)" "list_all week_tiles (rows createEmptyState)"
    by (simp_all add: createEmptyState_def rows_dense_def)
  show "rows_dense (rows three_row_board)"
    unfolding three_row_board_def by (intro rows_dense_addRow e)
  show "list_all week_tiles (rows three_row_board)"
    unfolding three_row_board_def by (intro week_tiles_addRow e)
qed

lemma dense_Three_Row_Board:
  "Rows_dense (Board_rows Three_Row_Board)" "list_all Week_Tiles (Board_rows Three_Row_Board)"
proof -
  have e: "Rows_dense (Board_rows (Board_new None None))"
    "list_all Week_Tiles (Board_rows (Board_new None None))"
    by (simp_all add: Board_new_def Rows_dense_def)
  show "Rows_dense (Board_rows Three_Row_Board)"
    unfolding Three_Row_Board_def by (intro Rows_dense_Board_addRow e)
  show "list_all Week_Tiles (Board_rows Three_Row_Board)"
    unfolding Three_Row_Board_def by (intro Week_Tiles_Board_addRow e)
qed

text \<open>Every request of the controller keeps the rows dense.\<close>

lemma rows_dense_update:
  assumes "rows_dense rs" and "i < length rs" and "row_index x = row_index (rs ! i)"
    and "list_all (\<lambda>t. rowIndex t = row_index x) (tiles x)"
  shows "rows_dense (rs[i := x])"
proof -
  have "map row_index (rs[i := x]) = (map row_index rs)[i := map row_index rs ! i]"
    using assms(2,3) by (simp add: map_update)
  then have "map row_index (rs[i := x]) = map row_index rs"
    by simp
  moreover have "list_all (\<lambda>r. list_all (\<lambda>t. rowIndex t = row_index r) (tiles r)) (rs[i := x])"
    using assms(1,4) set_update_subset_insert [of rs i x]
    by (auto simp add: rows_dense_def list_all_iff)
  ultimately show ?thesis
    using assms(1) by (simp add: rows_dense_def)
qed

lemma week_tiles_update:
  "list_all week_tiles rs \<Longrightarrow> week_tiles x \<Longrightarrow> list_all week_tiles (rs[i := x])"
  using set_update_subset_insert [of rs i x] by (auto simp add: list_all_iff)

lemma rows_dense_nth:
  "rows_dense rs \<Longrightarrow> i < length rs \<Longrightarrow> list_all (\<lambda>t. rowIndex t = row_index (rs ! i)) (tiles (rs ! i))"
  by (simp add: rows_dense_def list_all_iff)

lemma week_tiles_nth: "list_all week_tiles rs \<Longrightarrow> i < length rs \<Longrightarrow> week_tiles (rs ! i)"
  by (simp add: list_all_iff)

lemma rows_dense_setRowHeader:
  "rows_dense (rows s) \<Longrightarrow> rows_dense (rows (setRowHeader s p hdr))"
  by (auto simp add: setRowHeader_def js_index_def rows_dense_nth intro!: rows_dense_update)

lemma week_tiles_setRowHeader:
  "list_all week_tiles (rows s) \<Longrightarrow> list_all week_tiles (rows (setRowHeader s p hdr))"
  using week_tiles_nth [of "rows s" "nat p"]
  by (auto simp add: setRowHeader_def js_index_def week_tiles_def intro!: week_tiles_update)

lemma rows_dense_setRowIncluded:
  "rows_dense (rows s) \<Longrightarrow> rows_dense (rows (setRowIncluded s p inc))"
  by (auto simp add: setRowIncluded_def js_index_def rows_dense_nth intro!: rows_dense_update)

lemma week_tiles_setRowIncluded:
  "list_all week_tiles (rows s) \<Longrightarrow> list_all week_tiles (rows (setRowIncluded s p inc))"
  using week_tiles_nth [of "rows s" "nat p"]
  by (auto simp add: setRowIncluded_def js_index_def week_tiles_def intro!: week_tiles_update)

lemma rows_setColumnRequiredWorkers: "rows (setColumnRequiredWorkers s c n) = rows s"
  by (simp add: setColumnRequiredWorkers_def split: option.splits)

lemma rows_dense_set_tile_state:
  assumes "rows_dense (rows s)" and "i < length (rows s)" and "j < length (tiles (rows s ! i))"
  shows "rows_dense (rows (set_tile_state s i j v))"
proof -
  let ?r = "rows s ! i"
  let ?ts = "(tiles ?r)[j := (tiles ?r ! j)\<lparr>state := v\<rparr>]"
  have old: "list_all (\<lambda>t. rowIndex t = row_index ?r) (tiles ?r)"
    using assms(1,2) by (rule rows_dense_nth)
  then have "rowIndex (tiles ?r ! j) = row_index ?r"
    using assms(3) by (simp add: list_all_iff)
  with old have "list_all (\<lambda>t. rowIndex t = row_index ?r) ?ts"
    using set_update_subset_insert [of "tiles ?r" j "(tiles ?r ! j)\<lparr>state := v\<rparr>"]
    by (auto simp add: list_all_iff)
  with assms(1,2) show ?thesis
    by (auto simp add: set_tile_state_def intro!: rows_dense_update)
qed

lemma week_tiles_set_tile_state:
  assumes "list_all week_tiles (rows s)" and "i < length (rows s)"
    and "j < length (tiles (rows s ! i))"
  shows "list_all week_tiles (rows (set_tile_state s i j v))"
proof -
  let ?r = "rows s ! i"
  have "map columnIndex ((tiles ?r)[j := (tiles ?r ! j)\<lparr>state := v\<rparr>])
      = (map columnIndex (tiles ?r))[j := map columnIndex (tiles ?r) ! j]"
    using assms(3) by (simp add: map_update)
  then have "map columnIndex ((tiles ?r)[j := (tiles ?r ! j)\<lparr>state := v\<rparr>])
      = map columnIndex (tiles ?r)"
    by simp
  moreover have "week_tiles ?r"
    using assms(1,2) by (rule week_tiles_nth)
  ultimately show ?thesis
    using assms(1) by (auto simp add: set_tile_state_def week_tiles_def intro!: week_tiles_update)
qed

lemma toggleTileState_cases:
  "toggleTileState s p c = (s, None)
   \<or> (\<exists>i j v. i < length (rows s) \<and> j < length (tiles (rows s ! i))
         \<and> fst (toggleTileState s p c) = set_tile_state s i j v)"
proof (cases "tile_state_at s p c")
  case None
  then show ?thesis by (simp add: toggleTileState_invalid)
next
  case (Some st)
  then obtain i j where "i < length (rows s)" "j < length (tiles (rows s ! i))"
    "p = int i" "c = int j"
    by (auto simp add: tile_state_at_Some)
  with Some toggleTileState_valid [OF Some] show ?thesis
    by auto
qed

lemma rows_dense_toggleTileState:
  "rows_dense (rows s) \<Longrightarrow> rows_dense (rows (fst (toggleTileState s p c)))"
  using toggleTileState_cases [of s p c] by (auto simp add: rows_dense_set_tile_state)

lemma week_tiles_toggleTileState:
  "list_all week_tiles (rows s) \<Longrightarrow> list_all week_tiles (rows (fst (toggleTileState s p c)))"
  using toggleTileState_cases [of s p c] by (auto simp add: week_tiles_set_tile_state)

lemma apply_board_call_dense:
  assumes "rows_dense (rows s) \<and> list_all week_tiles (rows s)"
  shows "rows_dense (rows (apply_board_call s call))
       \<and> list_all week_tiles (rows (apply_board_call s call))"
  using assms
  by (cases call)
     (simp_all add: rows_dense_addRow week_tiles_addRow rows_dense_removeRow week_tiles_removeRow
       rows_dense_setRowHeader week_tiles_setRowHeader rows_dense_setRowIncluded
       week_tiles_setRowIncluded rows_dense_toggleTileState week_tiles_toggleTileState
       rows_setColumnRequiredWorkers rows_dense_moveRowUp week_tiles_moveRowUp
       rows_dense_moveRowDown week_tiles_moveRowDown)

lemma board_run_dense:
  assumes "rows_dense (rows s) \<and> list_all week_tiles (rows s)"
  shows "rows_dense (rows (board_run s calls)) \<and> list_all week_tiles (rows (board_run s calls))"
proof (induction calls rule: rev_induct)
  case Nil
  from assms show ?case by (simp add: board_run_def)
next
  case (snoc c cs)
  have "board_run s (cs @ [c]) = apply_board_call (board_run s cs) c"
    by (simp add: board_run_def)
  with apply_board_call_dense [OF snoc] show ?case by simp
qed

lemma board_run_empty_dense:
  "rows_dense (rows (board_run createEmptyState calls))
   \<and> list_all week_tiles (rows (board_run createEmptyState calls))"
  by (rule board_run_dense) (simp add: createEmptyState_def rows_dense_def)

text \<open>
  C6: a positional mutation with an invalid index changes nothing and reports failure;
  no operation raises. \<open>removeRow\<close> with \<open>0 \<le> p < rowCount\<close> returns true and removes
  exactly the row at \<open>p\<close> (the other rows keep their content and order; columns and the
  other fields of the state stay), otherwise it returns false and the board is
  unchanged. \<open>moveRowUp(0)\<close>, \<open>moveRowDown(last)\<close> and both with any index outside the
  rows return false and leave the board unchanged (inside, they return true and swap the
  two neighbours). \<open>setColumnRequiredWorkers\<close> writes only when the column index is
  valid and the count is positive; otherwise the state, and so the previous required
  count, stays, and nothing is reported. \<open>setRowHeader\<close>, \<open>setRowIncluded\<close> and
  \<open>toggleTileState\<close> likewise change nothing on a row index outside the rows.
\<close>

theorem invalid_positions_are_no_ops:
  "(0 \<le> p \<and> p < int (length (rows s)) \<longrightarrow>
       snd (removeRow s p) = True
       \<and> map row_content (rows (fst (removeRow s p))) = splice1 (map row_content (rows s)) (nat p)
       \<and> length (rows (fst (removeRow s p))) = length (rows s) - 1
       \<and> columns (fst (removeRow s p)) = columns s
       \<and> board_state.more (fst (removeRow s p)) = board_state.more s)
   \<and> (\<not> (0 \<le> p \<and> p < int (length (rows s))) \<longrightarrow>
       removeRow s p = (s, False)
       \<and> moveRowUp s p = (s, False)
       \<and> moveRowDown s p = (s, False)
       \<and> setRowHeader s p hdr = s
       \<and> setRowIncluded s p inc = s
       \<and> toggleTileState s p c = (s, None))
   \<and> moveRowUp s 0 = (s, False)
   \<and> moveRowDown s (int (length (rows s)) - 1) = (s, False)
   \<and> (0 < p \<and> p < int (length (rows s)) \<longrightarrow>
       snd (moveRowUp s p) = True
       \<and> map row_content (rows (fst (moveRowUp s p))) =
           (map row_content (rows s))[nat p := map row_content (rows s) ! (nat p - 1),
                                      nat p - 1 := map row_content (rows s) ! nat p])
   \<and> (0 \<le> p \<and> p < int (length (rows s)) - 1 \<longrightarrow>
       snd (moveRowDown s p) = True
       \<and> map row_content (rows (fst (moveRowDown s p))) =
           (map row_content (rows s))[nat p := map row_content (rows s) ! (nat p + 1),
                                      nat p + 1 := map row_content (rows s) ! nat p])
   \<and> (0 \<le> c \<and> c < int (length (columns s)) \<and> 0 < n \<longrightarrow>
       setColumnRequiredWorkers s c n =
         s\<lparr>columns := (columns s)[nat c := (columns s ! nat c)\<lparr>requiredWorkers := n\<rparr>]\<rparr>)
   \<and> (\<not> (0 \<le> c \<and> c < int (length (columns s)) \<and> 0 < n) \<longrightarrow>
       setColumnRequiredWorkers s c n = s)"
proof -
  have rm: "snd (removeRow s p) = True
       \<and> map row_content (rows (fst (removeRow s p))) = splice1 (map row_content (rows s)) (nat p)
       \<and> length (rows (fst (removeRow s p))) = length (rows s) - 1
       \<and> columns (fst (removeRow s p)) = columns s
       \<and> board_state.more (fst (removeRow s p)) = board_state.more s"
    if "0 \<le> p \<and> p < int (length (rows s))"
  proof -
    from that have "nat p < length (rows s)" by auto
    with that show ?thesis
      by (simp add: content_removeRow removeRow_success)
         (simp add: removeRow_valid length_reindexRows length_splice1 reindexRows_others)
  qed
  have inv: "removeRow s p = (s, False)
       \<and> moveRowUp s p = (s, False)
       \<and> moveRowDown s p = (s, False)
       \<and> setRowHeader s p hdr = s
       \<and> setRowIncluded s p inc = s
       \<and> toggleTileState s p c = (s, None)"
    if "\<not> (0 \<le> p \<and> p < int (length (rows s)))"
    using that
    by (auto simp add: removeRow_invalid moveRowUp_invalid moveRowDown_invalid
        row_mutations_invalid)
  have edge: "moveRowUp s 0 = (s, False)" "moveRowDown s (int (length (rows s)) - 1) = (s, False)"
    by (simp_all add: moveRowUp_invalid moveRowDown_invalid)
  have up: "snd (moveRowUp s p) = True
       \<and> map row_content (rows (fst (moveRowUp s p))) =
           (map row_content (rows s))[nat p := map row_content (rows s) ! (nat p - 1),
                                      nat p - 1 := map row_content (rows s) ! nat p]"
    if "0 < p \<and> p < int (length (rows s))"
    using that content_moveRowUp [of p s] by (simp add: moveRowUp_success)
  have down: "snd (moveRowDown s p) = True
       \<and> map row_content (rows (fst (moveRowDown s p))) =
           (map row_content (rows s))[nat p := map row_content (rows s) ! (nat p + 1),
                                      nat p + 1 := map row_content (rows s) ! nat p]"
    if "0 \<le> p \<and> p < int (length (rows s)) - 1"
    using that content_moveRowDown [of p s] by (simp add: moveRowDown_success)
  have col: "setColumnRequiredWorkers s c n =
         s\<lparr>columns := (columns s)[nat c := (columns s ! nat c)\<lparr>requiredWorkers := n\<rparr>]\<rparr>"
    if "0 \<le> c \<and> c < int (length (columns s)) \<and> 0 < n"
    using that by (simp add: setColumnRequiredWorkers_valid)
  have nocol: "setColumnRequiredWorkers s c n = s"
    if "\<not> (0 \<le> c \<and> c < int (length (columns s)) \<and> 0 < n)"
    using that by (rule setColumnRequiredWorkers_invalid)
  show ?thesis
    using rm inv edge up down col nocol by blast
qed

theorem invalid_positions_are_no_ops_witness:
  "(0::int) \<le> 1 \<and> 1 < int (length (rows three_row_board))
   \<and> (0::int) < 1 \<and> (1::int) < int (length (rows three_row_board)) - 1
   \<and> (0::int) \<le> 6 \<and> 6 < int (length (columns three_row_board)) \<and> (0::int) < 3
   \<and> snd (removeRow three_row_board 1) = True
   \<and> map row_content (rows (fst (removeRow three_row_board 1)))
       = splice1 (map row_content (rows three_row_board)) (nat 1)
   \<and> snd (moveRowUp three_row_board 1) = True
   \<and> snd (moveRowDown three_row_board 1) = True
   \<and> setColumnRequiredWorkers three_row_board 6 3 =
        three_row_board\<lparr>columns := (columns three_row_board)
          [nat 6 := (columns three_row_board ! nat 6)\<lparr>requiredWorkers := 3\<rparr>]\<rparr>
   \<and> \<not> (0 \<le> (3::int) \<and> 3 < int (length (rows three_row_board)))
   \<and> \<not> (0 \<le> (6::int) \<and> 6 < int (length (columns three_row_board)) \<and> 0 < (0::int))
   \<and> removeRow three_row_board 3 = (three_row_board, False)
   \<and> moveRowUp three_row_board 3 = (three_row_board, False)
   \<and> moveRowDown three_row_board 3 = (three_row_board, False)
   \<and> setColumnRequiredWorkers three_row_board 6 0 = three_row_board"
proof -
  have l: "int (length (rows three_row_board)) = 3" "int (length (columns three_row_board)) = 7"
    by (simp_all add: length_three_row_board length_columns_three_row_board)
  have a: "(0::int) \<le> 1 \<and> 1 < int (length (rows three_row_board))"
    "(0::int) < 1 \<and> 1 < int (length (rows three_row_board))"
    "(0::int) \<le> 1 \<and> (1::int) < int (length (rows three_row_board)) - 1"
    "(0::int) \<le> 6 \<and> 6 < int (length (columns three_row_board)) \<and> (0::int) < 3"
    "\<not> (0 \<le> (3::int) \<and> 3 < int (length (rows three_row_board)))"
    "\<not> (0 \<le> (6::int) \<and> 6 < int (length (columns three_row_board)) \<and> 0 < (0::int))"
    by (simp_all add: l)
  show ?thesis
    using a
      invalid_positions_are_no_ops [of 1 three_row_board "[]" True 6 3]
      invalid_positions_are_no_ops [of 3 three_row_board "[]" True 6 0]
    by simp
qed

text \<open>
  C7: on a board whose rows are densely indexed (positions \<open>0..N-1\<close> in order, every
  tile's \<open>rowIndex\<close> the index of its row) and carry a week of tiles each, \<open>addRow\<close>,
  \<open>removeRow\<close>, \<open>moveRowUp\<close> and \<open>moveRowDown\<close> give such a board again; a successful
  removal or move re-indexes every row and tile, so that the rows are dense afterwards
  whatever they were before, and a row added after it continues the numbering. Every
  row keeps its 7 tiles with column positions \<open>0..6\<close>. So the board is of this kind
  after every sequence of requests on the empty board. The same holds for \<open>addRow\<close>
  and \<open>removeRow\<close> of class Board.
\<close>

theorem structural_mutations_keep_rows_dense:
  "(rows_dense (rows s) \<and> list_all week_tiles (rows s) \<longrightarrow>
       rows_dense (rows (fst (addRow s hdr))) \<and> list_all week_tiles (rows (fst (addRow s hdr)))
       \<and> rows_dense (rows (fst (removeRow s p)))
       \<and> list_all week_tiles (rows (fst (removeRow s p)))
       \<and> rows_dense (rows (fst (moveRowUp s p)))
       \<and> list_all week_tiles (rows (fst (moveRowUp s p)))
       \<and> rows_dense (rows (fst (moveRowDown s p)))
       \<and> list_all week_tiles (rows (fst (moveRowDown s p))))
   \<and> (snd (removeRow s p) \<longrightarrow>
       rows_dense (rows (fst (removeRow s p)))
       \<and> rows_dense (rows (fst (addRow (fst (removeRow s p)) hdr))))
   \<and> (snd (moveRowUp s p) \<longrightarrow> rows_dense (rows (fst (moveRowUp s p))))
   \<and> (snd (moveRowDown s p) \<longrightarrow> rows_dense (rows (fst (moveRowDown s p))))
   \<and> rows_dense (rows (board_run createEmptyState calls))
   \<and> list_all week_tiles (rows (board_run createEmptyState calls))
   \<and> (Rows_dense (Board_rows b) \<and> list_all Week_Tiles (Board_rows b) \<longrightarrow>
       Rows_dense (Board_rows (fst (Board_addRow b hdr)))
       \<and> list_all Week_Tiles (Board_rows (fst (Board_addRow b hdr)))
       \<and> Rows_dense (Board_rows (fst (Board_removeRow b p)))
       \<and> list_all Week_Tiles (Board_rows (fst (Board_removeRow b p))))
   \<and> (snd (Board_removeRow b p) \<longrightarrow>
       Rows_dense (Board_rows (fst (Board_removeRow b p)))
       \<and> Rows_dense (Board_rows (fst (Board_addRow (fst (Board_removeRow b p)) hdr))))"
  using rows_dense_addRow [of s hdr] week_tiles_addRow [of s hdr]
    rows_dense_removeRow [of s p] week_tiles_removeRow [of s p]
    rows_dense_moveRowUp [of s p] week_tiles_moveRowUp [of s p]
    rows_dense_moveRowDown [of s p] week_tiles_moveRowDown [of s p]
    rows_dense_addRow [of "fst (removeRow s p)" hdr]
    Rows_dense_Board_addRow [of b hdr] Week_Tiles_Board_addRow [of b hdr]
    Rows_dense_Board_removeRow [of b p] Week_Tiles_Board_removeRow [of b p]
    Rows_dense_Board_addRow [of "fst (Board_removeRow b p)" hdr]
    board_run_empty_dense [of calls]
  by blast

theorem structural_mutations_keep_rows_dense_witness:
  "rows_dense (rows three_row_board) \<and> list_all week_tiles (rows three_row_board)
   \<and> snd (removeRow three_row_board 1) \<and> snd (moveRowUp three_row_board 1)
   \<and> snd (moveRowDown three_row_board 1)
   \<and> Rows_dense (Board_rows Three_Row_Board) \<and> list_all Week_Tiles (Board_rows Three_Row_Board)
   \<and> snd (Board_removeRow Three_Row_Board 1)
   \<and> rows_dense (rows (fst (removeRow three_row_board 1)))
   \<and> list_all week_tiles (rows (fst (removeRow three_row_board 1)))
   \<and> rows_dense (rows (fst (addRow (fst (removeRow three_row_board 1)) ''Dora'')))
   \<and> rows_dense (rows (fst (moveRowUp three_row_board 1)))
   \<and> rows_dense (rows (fst (moveRowDown three_row_board 1)))
   \<and> Rows_dense (Board_rows (fst (Board_removeRow Three_Row_Board 1)))
   \<and> Rows_dense (Board_rows (fst (Board_addRow (fst (Board_removeRow Three_Row_Board 1)) ''Dora'')))"
proof -
  have l: "int (length (rows three_row_board)) = 3"
    by (simp add: length_three_row_board)
  have L: "int (length (Board_rows Three_Row_Board)) = 3"
    by (simp add: Three_Row_Board_def Board_addRow_def Let_def Board_new_def)
  have a: "snd (removeRow three_row_board 1)" "snd (moveRowUp three_row_board 1)"
    "snd (moveRowDown three_row_board 1)"
    by (simp_all add: removeRow_success moveRowUp_success moveRowDown_success l)
  have A: "snd (Board_removeRow Three_Row_Board 1)"
    by (simp add: Board_removeRow_def L)
  show ?thesis
    using a A dense_three_row_board dense_Three_Row_Board
      structural_mutations_keep_rows_dense [of three_row_board "''Dora''" 1 "[]" Three_Row_Board]
    by blast
qed

section \<open>Serialization round trip\<close>

lemma Tile_roundtrip: "Tile_fromJSON (Tile_toJSON t) = t"
  by (simp add: Tile_fromJSON_def Tile_toJSON_def Tile_new_def)

lemma Row_roundtrip: "Row_fromJSON (Row_toJSON r) = r"
  by (simp add: Row_fromJSON_def Row_toJSON_def Row_new_def Let_def o_def Tile_roundtrip)

lemma Column_roundtrip: "Column_named c \<Longrightarrow> Column_fromJSON (Column_toJSON c) = c"
  by (simp add: Column_fromJSON_def Column_toJSON_def Column_new_def Column_named_def)

lemma Column_named_new: "Column_named (Column_new i required)"
  by (simp add: Column_named_def Column_new_def)

lemma Column_named_setRequiredWorkers:
  "Column_named c \<Longrightarrow> Column_named (Column_setRequiredWorkers c n)"
  by (simp add: Column_named_def Column_setRequiredWorkers_def)

lemma Column_named_default: "list_all Column_named Board_createDefaultColumns"
  by (simp add: Board_createDefaultColumns_def list_all_iff Column_named_new)

lemma Column_named_fromJSON: "list_all Column_named (Board_columns (Board_fromJSON d))"
  by (simp add: Board_fromJSON_def Board_new_def Let_def list_all_iff Column_fromJSON_def
      Column_named_new)

lemma Board_roundtrip:
  assumes "list_all Column_named (Board_columns b)"
  shows "Board_fromJSON (Board_toJSON b) = b"
proof -
  have "map Column_fromJSON (map Column_toJSON (Board_columns b)) = Board_columns b"
    using assms by (simp add: list_all_iff Column_roundtrip map_idI)
  moreover have "map Row_fromJSON (map Row_toJSON (Board_rows b)) = Board_rows b"
    by (simp add: Row_roundtrip map_idI)
  ultimately show ?thesis
    by (simp add: Board_fromJSON_def Board_toJSON_def Board_new_def Let_def)
qed

lemma tile_roundtrip: "Tile_toJSON (Tile_fromJSON d) = d"
  by (simp add: Tile_fromJSON_def Tile_toJSON_def Tile_new_def)

lemma row_roundtrip: "Row_toJSON (Row_fromJSON d) = d"
  by (simp add: Row_fromJSON_def Row_toJSON_def Row_new_def Let_def o_def tile_roundtrip)

lemma column_roundtrip: "Column_toJSON (Column_fromJSON d) = d"
  by (simp add: Column_fromJSON_def Column_toJSON_def Column_new_def)

lemma board_state_roundtrip: "Board_toJSON (Board_fromJSON d) = (d :: board_state)"
  by (simp add: Board_fromJSON_def Board_toJSON_def Board_new_def Let_def o_def
      row_roundtrip column_roundtrip)

text \<open>
  C8: \<open>Board.fromJSON\<close> of \<open>Board.toJSON\<close> of a board is the board again, field by
  field: the columns with index, required count and the name derived from the index,
  the rows with index, header and inclusion flag, the tiles with row position, column
  position and state; for any number of rows, flags and tile states. The name is not
  serialized but derived again by the constructor, so the columns are those whose name
  is the derived one, as every column made by the constructor, every default column and
  every column of a deserialized board is. Tiles, rows and columns round-trip on their
  own, and \<open>toJSON\<close> of \<open>fromJSON\<close> of a plain state gives the plain state back.
\<close>

theorem board_serialization_roundtrip:
  "(list_all Column_named (Board_columns b) \<longrightarrow> Board_fromJSON (Board_toJSON b) = b)
   \<and> Tile_fromJSON (Tile_toJSON t) = t
   \<and> Row_fromJSON (Row_toJSON r) = r
   \<and> (Column_named c \<longrightarrow> Column_fromJSON (Column_toJSON c) = c)
   \<and> Column_named (Column_new i required)
   \<and> (Column_named c \<longrightarrow> Column_named (Column_setRequiredWorkers c n))
   \<and> list_all Column_named (Board_columns (Board_new None rws))
   \<and> list_all Column_named (Board_columns (Board_fromJSON d))
   \<and> Board_toJSON (Board_fromJSON d) = (d :: board_state)"
  using Board_roundtrip [of b] Column_roundtrip [of c] Column_named_setRequiredWorkers [of c n]
  by (simp add: Tile_roundtrip Row_roundtrip Column_named_new Column_named_fromJSON
      board_state_roundtrip)
     (simp add: Board_new_def Column_named_default)

theorem board_serialization_roundtrip_witness:
  "list_all Column_named (Board_columns Mixed_Board)
   \<and> Column_named (Column_new 6 (Some 3))
   \<and> Board_fromJSON (Board_toJSON Mixed_Board) = Mixed_Board
   \<and> Column_fromJSON (Column_toJSON (Column_new 6 (Some 3))) = Column_new 6 (Some 3)
   \<and> map Row_includedInCalculations (Board_rows Mixed_Board) = [True, False, True]
   \<and> map (\<lambda>r. map Tile_state (Row_tiles r)) (Board_rows Mixed_Board)
       = [replicate 7 ''Praca'', replicate 7 ''Praca'', replicate 7 ''A'']"
proof -
  have a: "list_all Column_named (Board_columns Mixed_Board)"
    by (simp add: Mixed_Board_def Board_new_def Column_named_default)
  have b: "Column_named (Column_new 6 (Some 3))"
    by (rule Column_named_new)
  have c: "map Row_includedInCalculations (Board_rows Mixed_Board) = [True, False, True]"
    by (simp add: Mixed_Board_def Board_new_def Work_Row_def Row_new_def)
  have d: "map (\<lambda>r. map Tile_state (Row_tiles r)) (Board_rows Mixed_Board)
       = [replicate 7 ''Praca'', replicate 7 ''Praca'', replicate 7 ''A'']"
    by (simp add: Mixed_Board_def Board_new_def Work_Row_def Row_new_def Tile_new_def
        Row_createDefaultTiles_def upt_7 TileState_PRACA_def TileState_A_def numeral_eq_Suc)
  show ?thesis
    using a b c d
      board_serialization_roundtrip [of Mixed_Board _ _ "Column_new 6 (Some 3)"]
    by blast
qed

end
